theory Spec2Isabelle
  imports Main
begin

section \<open>Python exceptions\<close>

text \<open>
  The exception classes that the modelled code raises or catches. Every \<open>raise\<close> of the
  source, and every exception of a library call the source relies on, is an \<open>Inl\<close> value.
\<close>

datatype error =
    ConnectionResetError
  | ConnectionAbortedError
  | TypeError
  | KeyError
  | ValueError
  | UnicodeDecodeError
  | IntegrityError
  | OperationalError
  | ProgrammingError

section \<open>The wire protocol: \<open>communicator.py\<close>\<close>

type_synonym bytes = "char list"

definition HEADER :: nat where
  "HEADER = 64"

subsection \<open>\<open>str(n)\<close>, \<open>bytes.decode\<close>, \<open>str.strip\<close> and \<open>int(s)\<close>\<close>

definition digit_char :: "nat \<Rightarrow> char" where
  "digit_char d = ''0123456789'' ! d"

text \<open>\<open>str(n)\<close> for a length \<open>n\<close>: the decimal digits, most significant first.\<close>

fun str_nat :: "nat \<Rightarrow> string" where
  "str_nat n =
     (if n < 10 then [digit_char n] else str_nat (n div 10) @ [digit_char (n mod 10)])"

declare str_nat.simps [simp del]

text \<open>
  A Python \<open>str\<close> read from the wire is a list of code points. \<open>bytes.decode('utf-8')\<close>
  accepts exactly the well-formed sequences: one byte below \<open>0x80\<close>; a lead byte
  \<open>0xC2\<close> to \<open>0xDF\<close> and one continuation byte; a lead byte \<open>0xE0\<close> to \<open>0xEF\<close> and
  two, the code point not below \<open>0x800\<close> and no surrogate; a lead byte \<open>0xF0\<close> to
  \<open>0xF4\<close> and three, the code point from \<open>0x10000\<close> to \<open>0x10FFFF\<close>. Anything else is a
  \<open>UnicodeDecodeError\<close>.
\<close>

type_synonym code_points = "nat list"

definition continuation :: "nat \<Rightarrow> bool" where
  "continuation b = (128 \<le> b \<and> b < 192)"

fun utf8_decode :: "nat list \<Rightarrow> code_points option" where
  "utf8_decode [] = Some []"
| "utf8_decode (b # bs) =
     (if b < 128 then map_option ((#) b) (utf8_decode bs)
      else if 194 \<le> b \<and> b < 224 then
        (case bs of
           b1 # rest \<Rightarrow>
             if continuation b1
             then map_option ((#) ((b - 192) * 64 + (b1 - 128))) (utf8_decode rest)
             else None
         | _ \<Rightarrow> None)
      else if 224 \<le> b \<and> b < 240 then
        (case bs of
           b1 # b2 # rest \<Rightarrow>
             (let cp = (b - 224) * 4096 + (b1 - 128) * 64 + (b2 - 128)
              in if continuation b1 \<and> continuation b2 \<and> 2048 \<le> cp
                    \<and> \<not> (55296 \<le> cp \<and> cp < 57344)
                 then map_option ((#) cp) (utf8_decode rest)
                 else None)
         | _ \<Rightarrow> None)
      else if 240 \<le> b \<and> b < 245 then
        (case bs of
           b1 # b2 # b3 # rest \<Rightarrow>
             (let cp = (b - 240) * 262144 + (b1 - 128) * 4096 + (b2 - 128) * 64 + (b3 - 128)
              in if continuation b1 \<and> continuation b2 \<and> continuation b3
                    \<and> 65536 \<le> cp \<and> cp < 1114112
                 then map_option ((#) cp) (utf8_decode rest)
                 else None)
         | _ \<Rightarrow> None)
      else None)"

definition decode :: "bytes \<Rightarrow> error + code_points" where
  "decode bs =
     (case utf8_decode (map of_char bs) of
        None \<Rightarrow> Inl UnicodeDecodeError
      | Some s \<Rightarrow> Inr s)"

text \<open>The code points for which \<open>str.isspace\<close> holds: what \<open>str.strip()\<close> removes.\<close>

definition is_space :: "nat \<Rightarrow> bool" where
  "is_space c =
     ((9 \<le> c \<and> c \<le> 13) \<or> (28 \<le> c \<and> c \<le> 32) \<or> c = 133 \<or> c = 160 \<or> c = 5760
      \<or> (8192 \<le> c \<and> c \<le> 8202) \<or> c = 8232 \<or> c = 8233 \<or> c = 8239 \<or> c = 8287
      \<or> c = 12288)"

definition strip :: "code_points \<Rightarrow> code_points" where
  "strip s = rev (dropWhile is_space (rev (dropWhile is_space s)))"

text \<open>
  The decimal digits of Unicode (version 14, as in Python 3.11) come in runs of ten, zero
  first; these are the zeros. \<open>decimal c\<close> is the value of the digit \<open>c\<close>.
\<close>

definition DECIMAL_ZEROS :: "nat list" where
  "DECIMAL_ZEROS =
     [48, 1632, 1776, 1984, 2406, 2534, 2662, 2790, 2918, 3046, 3174, 3302, 3430, 3558, 3664,
      3792, 3872, 4160, 4240, 6112, 6160, 6470, 6608, 6784, 6800, 6992, 7088, 7232, 7248,
      42528, 43216, 43264, 43472, 43504, 43600, 44016, 65296, 66720, 68912, 69734, 69872,
      69942, 70096, 70384, 70736, 70864, 71248, 71360, 71472, 71904, 72016, 72784, 73040,
      73120, 92768, 92864, 93008, 120782, 120792, 120802, 120812, 120822, 123200, 123632,
      125264, 130032]"

definition decimal :: "nat \<Rightarrow> nat option" where
  "decimal c =
     (case find (\<lambda>z. z \<le> c \<and> c < z + 10) DECIMAL_ZEROS of
        None \<Rightarrow> None
      | Some z \<Rightarrow> Some (c - z))"

text \<open>
  \<open>int(s)\<close> on a string. First every code point from 127 on is replaced: a space by the
  ASCII space, a decimal digit by its ASCII digit, anything else by \<open>?\<close>. Then the text
  is read as: white space of C (tab to carriage return, and the space), an optional sign,
  decimal digits where single underscores may separate digits, white space of C. Anything
  else is a \<open>ValueError\<close>. (The limit of 4300 digits is out of reach of the 64 bytes that
  \<open>receive\<close> reads.)
\<close>

definition to_ascii :: "nat \<Rightarrow> nat" where
  "to_ascii c =
     (if c < 127 then c
      else if is_space c then 32
      else (case decimal c of Some d \<Rightarrow> 48 + d | None \<Rightarrow> 63))"

definition is_c_space :: "nat \<Rightarrow> bool" where
  "is_c_space c = ((9 \<le> c \<and> c \<le> 13) \<or> c = 32)"

definition is_digit :: "nat \<Rightarrow> bool" where
  "is_digit c = (48 \<le> c \<and> c \<le> 57)"

fun digits_ok :: "nat list \<Rightarrow> bool" where
  "digits_ok [] = False"
| "digits_ok [c] = is_digit c"
| "digits_ok (c # d # cs) =
     (is_digit c \<and> (if d = 95 then digits_ok cs else digits_ok (d # cs)))"

definition digits_val :: "nat list \<Rightarrow> nat" where
  "digits_val s = foldl (\<lambda>a c. 10 * a + (c - 48)) 0 (filter is_digit s)"

definition py_int :: "code_points \<Rightarrow> error + int" where
  "py_int s =
     (let t = rev (dropWhile is_c_space (rev (dropWhile is_c_space (map to_ascii s)))) in
      if t \<noteq> [] \<and> hd t = 45 then
        (if digits_ok (tl t) then Inr (- int (digits_val (tl t))) else Inl ValueError)
      else if t \<noteq> [] \<and> hd t = 43 then
        (if digits_ok (tl t) then Inr (int (digits_val (tl t))) else Inl ValueError)
      else if digits_ok t then Inr (int (digits_val t))
      else Inl ValueError)"

subsection \<open>The socket as a byte stream\<close>

text \<open>
  One direction of a connection. \<open>wire\<close> holds the bytes written and not yet read,
  oldest first; after them the stream is at its end (the writer has closed).
  \<open>arrivals\<close> says how many bytes each coming \<open>recv\<close> call finds ready, so that a read
  may return fewer bytes than asked for; once the list is used up every byte of \<open>wire\<close>
  is ready. \<open>socket.send\<close> is taken to write all the bytes it is given.
\<close>

record connection =
  wire :: bytes
  arrivals :: "nat list"

text \<open>
  \<open>socket.recv(bufsize)\<close>: at most \<open>bufsize\<close> bytes, at least one while bytes remain,
  and \<open>b''\<close> at the end of the stream.
\<close>

definition recv :: "nat \<Rightarrow> connection \<Rightarrow> bytes \<times> connection" where
  "recv bufsize c =
     (case arrivals c of
        [] \<Rightarrow> (take bufsize (wire c), c\<lparr>wire := drop bufsize (wire c)\<rparr>)
      | k # ks \<Rightarrow>
          (let n = min bufsize (max 1 k)
           in (take n (wire c), c\<lparr>wire := drop n (wire c), arrivals := ks\<rparr>)))"

text \<open>\<open>_recv\<close>: an empty read means the connection was closed.\<close>

definition recv_checked :: "nat \<Rightarrow> connection \<Rightarrow> (error + bytes) \<times> connection" where
  "recv_checked bufsize c =
     (case recv bufsize c of (data, c') \<Rightarrow>
        if data = [] then (Inl ConnectionResetError, c') else (Inr data, c'))"

text \<open>
  \<open>send\<close>. \<open>dumps\<close> stands for \<open>pickle.dumps\<close>, which is not code of this repository.
  \<open>b' ' * k\<close> is empty for a negative \<open>k\<close>, as the truncating subtraction gives.
\<close>

definition length_header :: "nat \<Rightarrow> bytes" where
  "length_header data_length =
     str_nat data_length @ replicate (HEADER - length (str_nat data_length)) CHR '' ''"

definition send :: "('v \<Rightarrow> bytes) \<Rightarrow> 'v \<Rightarrow> connection \<Rightarrow> connection" where
  "send dumps v c =
     (let data = dumps v;
          c1 = c\<lparr>wire := wire c @ length_header (length data)\<rparr>
      in c1\<lparr>wire := wire c1 @ data\<rparr>)"

text \<open>The loop of \<open>receive\<close> that collects the payload.\<close>

function recv_payload :: "int \<Rightarrow> bytes \<Rightarrow> connection \<Rightarrow> (error + bytes) \<times> connection" where
  "recv_payload data_length data c =
     (if int (length data) < data_length then
        (case recv_checked (nat (data_length - int (length data))) c of
           (Inl e, c') \<Rightarrow> (Inl e, c')
         | (Inr chunk, c') \<Rightarrow> recv_payload data_length (data @ chunk) c')
      else (Inr data, c))"
  by pat_completeness auto
termination
  apply (relation "measure (\<lambda>(data_length, data, c). nat (data_length - int (length data)))")
   apply simp
  apply (auto simp: recv_checked_def split: prod.splits if_splits)
  done

declare recv_payload.simps [simp del]

text \<open>\<open>receive\<close>. \<open>loads\<close> stands for \<open>pickle.loads\<close>.\<close>

definition receive :: "(bytes \<Rightarrow> error + 'v) \<Rightarrow> connection \<Rightarrow> (error + 'v) \<times> connection" where
  "receive loads c =
     (case recv_checked HEADER c of
        (Inl e, c1) \<Rightarrow> (Inl e, c1)
      | (Inr raw, c1) \<Rightarrow>
          (case decode raw of
             Inl e \<Rightarrow> (Inl e, c1)
           | Inr s \<Rightarrow>
               (case py_int (strip s) of
                  Inl e \<Rightarrow> (Inl e, c1)
                | Inr data_length \<Rightarrow>
                    (case recv_payload data_length [] c1 of
                       (Inl e, c2) \<Rightarrow> (Inl e, c2)
                     | (Inr data, c2) \<Rightarrow> (loads data, c2)))))"

section \<open>The persistence store: \<open>database/__init__.py\<close>\<close>

text \<open>
  Rows are the tuples that \<open>SELECT *\<close> returns; a field stands for its column, and for
  the index the callers use: \<open>user[0]\<close> is \<open>u_user_id\<close>, \<open>user[3]\<close> is \<open>u_username\<close>,
  \<open>user[4]\<close> is \<open>u_key\<close>; \<open>chat[0]\<close>, \<open>chat[1]\<close>, \<open>chat[2]\<close> are \<open>c_chat_id\<close>,
  \<open>c_user_1\<close>, \<open>c_user_2\<close>; \<open>message[1]\<close>, \<open>message[2]\<close>, \<open>message[4]\<close> are
  \<open>m_sender_id\<close>, \<open>m_message\<close>, \<open>m_unread\<close>.
\<close>

record user =
  u_user_id :: nat
  u_ip :: string
  u_mac :: string
  u_username :: string
  u_key :: string

record chat =
  c_chat_id :: string
  c_user_1 :: nat
  c_user_2 :: nat

record message =
  m_message_id :: nat
  m_sender_id :: nat
  m_message :: string
  m_dt :: string
  m_unread :: bool

text \<open>
  The table of one chat: its rows in the order of their \<open>message_id\<close>, the largest
  \<open>message_id\<close> handed out so far (\<open>AUTOINCREMENT\<close>), and the two user ids of its
  \<open>CHECK\<close> constraint.
\<close>

record chat_table =
  t_rows :: "message list"
  t_seq :: nat
  t_check_1 :: nat
  t_check_2 :: nat

text \<open>
  The SQLite file, shared by every \<open>Database\<close> object. \<open>tables\<close> maps the name of a
  per-chat table to the table; a name is the text that \<open>create_chat\<close> formatted. The
  methods put \<open>chat_id\<close> into the statement text: the model takes it to be a table
  name, spelled as \<open>create_chat\<close> spelled it, and a name without a table to be the
  \<open>OperationalError\<close> that SQLite reports; text that is not a name is not modelled.
  Foreign keys are declared but SQLite does not enforce them unless asked to, and the
  code does not ask.
\<close>

record database =
  users :: "user list"
  users_seq :: nat
  chats :: "chat list"
  tables :: "string \<rightharpoonup> chat_table"

text \<open>A fresh file after \<open>Database.__init__\<close>: both tables exist and are empty.\<close>

definition Database_init :: database where
  "Database_init = \<lparr>users = [], users_seq = 0, chats = [], tables = Map.empty\<rparr>"

definition Database_get_user :: "string \<Rightarrow> string \<Rightarrow> database \<Rightarrow> user option" where
  "Database_get_user ip mac d = find (\<lambda>u. u_ip u = ip \<and> u_mac u = mac) (users d)"

definition Database_get_user_id :: "nat \<Rightarrow> database \<Rightarrow> user option" where
  "Database_get_user_id i d = find (\<lambda>u. u_user_id u = i) (users d)"

text \<open>
  \<open>add_user\<close>: the \<open>INSERT\<close> fails on \<open>username UNIQUE\<close> and on \<open>UNIQUE (ip, mac)\<close>;
  otherwise the row gets the next \<open>user_id\<close>.
\<close>

definition Database_add_user ::
  "string \<Rightarrow> string \<Rightarrow> string \<Rightarrow> string \<Rightarrow> database \<Rightarrow> (error + user option) \<times> database" where
  "Database_add_user ip mac username key d =
     (if list_ex (\<lambda>u. u_username u = username) (users d)
         \<or> list_ex (\<lambda>u. u_ip u = ip \<and> u_mac u = mac) (users d)
      then (Inl IntegrityError, d)
      else
        (let row = \<lparr>u_user_id = users_seq d + 1, u_ip = ip, u_mac = mac,
                    u_username = username, u_key = key\<rparr>;
             d' = d\<lparr>users := users d @ [row], users_seq := users_seq d + 1\<rparr>
         in (Inr (Database_get_user ip mac d'), d')))"

text \<open>\<open>f'chat_{user_id_1}_{user_id_2}'\<close>\<close>

definition chat_name :: "nat \<Rightarrow> nat \<Rightarrow> string" where
  "chat_name user_id_1 user_id_2 = ''chat_'' @ str_nat user_id_1 @ ''_'' @ str_nat user_id_2"

text \<open>
  \<open>create_chat\<close>: the \<open>INSERT\<close> fails on the primary key \<open>chat_id\<close>; it is committed
  before the table is created with \<open>CREATE TABLE IF NOT EXISTS\<close>.
\<close>

definition Database_create_chat :: "nat \<Rightarrow> nat \<Rightarrow> database \<Rightarrow> (error + string) \<times> database" where
  "Database_create_chat user_id_1 user_id_2 d =
     (let chat_id = chat_name user_id_1 user_id_2 in
      if list_ex (\<lambda>c. c_chat_id c = chat_id) (chats d) then (Inl IntegrityError, d)
      else
        (let d1 = d\<lparr>chats := chats d @
                       [\<lparr>c_chat_id = chat_id, c_user_1 = user_id_1, c_user_2 = user_id_2\<rparr>]\<rparr>;
             d2 = (case tables d1 chat_id of
                     Some t \<Rightarrow> d1
                   | None \<Rightarrow>
                       d1\<lparr>tables := (tables d1)(chat_id \<mapsto>
                            \<lparr>t_rows = [], t_seq = 0,
                             t_check_1 = user_id_1, t_check_2 = user_id_2\<rparr>)\<rparr>)
         in (Inr chat_id, d2)))"

text \<open>
  \<open>add_message\<close>: no such table is an \<open>OperationalError\<close>, a sender outside the
  \<open>CHECK\<close> an \<open>IntegrityError\<close>. Returns \<open>cursor.lastrowid\<close>.
\<close>

definition Database_add_message ::
  "string \<Rightarrow> nat \<Rightarrow> string \<Rightarrow> string \<Rightarrow> bool \<Rightarrow> database \<Rightarrow> (error + nat) \<times> database" where
  "Database_add_message chat_id sender_id msg dt unread d =
     (case tables d chat_id of
        None \<Rightarrow> (Inl OperationalError, d)
      | Some t \<Rightarrow>
          if sender_id = t_check_1 t \<or> sender_id = t_check_2 t then
            (let row = \<lparr>m_message_id = t_seq t + 1, m_sender_id = sender_id,
                        m_message = msg, m_dt = dt, m_unread = unread\<rparr>;
                 t' = t\<lparr>t_rows := t_rows t @ [row], t_seq := t_seq t + 1\<rparr>
             in (Inr (t_seq t + 1), d\<lparr>tables := (tables d)(chat_id \<mapsto> t')\<rparr>))
          else (Inl IntegrityError, d))"

definition Database_get_message :: "string \<Rightarrow> nat \<Rightarrow> database \<Rightarrow> error + message option" where
  "Database_get_message chat_id message_id d =
     (case tables d chat_id of
        None \<Rightarrow> Inl OperationalError
      | Some t \<Rightarrow> Inr (find (\<lambda>m. m_message_id m = message_id) (t_rows t)))"

text \<open>
  The \<open>LIKE\<close> operator of SQLite, pattern first: \<open>%\<close> matches any run of characters,
  \<open>_\<close> any one character, and any other character matches itself, where the letters
  \<open>A\<close> to \<open>Z\<close> match their lower-case forms too.
\<close>

definition lower_code :: "char \<Rightarrow> nat" where
  "lower_code c = (let n = (of_char c :: nat) in if 65 \<le> n \<and> n \<le> 90 then n + 32 else n)"

fun like :: "string \<Rightarrow> string \<Rightarrow> bool" where
  "like [] t = (t = [])"
| "like (p # ps) [] = (p = CHR ''%'' \<and> like ps [])"
| "like (p # ps) (c # cs) =
     (if p = CHR ''%'' then like ps (c # cs) \<or> like (p # ps) cs
      else (p = CHR ''_'' \<or> lower_code p = lower_code c) \<and> like ps cs)"

text \<open>\<open>get_users\<close>: \<open>WHERE username LIKE '%' + username + '%'\<close>, the rows in table order.\<close>

definition Database_get_users :: "string \<Rightarrow> database \<Rightarrow> user list" where
  "Database_get_users username d =
     filter (\<lambda>u. like (''%'' @ username @ ''%'') (u_username u)) (users d)"

text \<open>
  The dictionary that describes a chat to one of its two users. \<open>get_user_chats\<close> fills
  \<open>messages\<close>; the notice of a new chat has no such entry.
\<close>

record chat_info =
  ci_chat_id :: string
  ci_is_user_1 :: bool
  ci_peer_id :: nat
  ci_peer_username :: string
  ci_peer_key :: string
  ci_messages :: "message list option"

text \<open>
  The loop of \<open>get_user_chats\<close> over the selected rows. The last 50 messages come back
  oldest first. A missing table fails the \<open>SELECT\<close>; a peer that is no user fails at
  \<open>peer[0]\<close>.
\<close>

fun user_chats :: "nat \<Rightarrow> database \<Rightarrow> chat list \<Rightarrow> error + chat_info list" where
  "user_chats user_id d [] = Inr []"
| "user_chats user_id d (chat # others) =
     (let is_user_1 = (c_user_1 chat = user_id);
          peer = Database_get_user_id (if is_user_1 then c_user_2 chat else c_user_1 chat) d
      in case tables d (c_chat_id chat) of
           None \<Rightarrow> Inl OperationalError
         | Some t \<Rightarrow>
             (case peer of
                None \<Rightarrow> Inl TypeError
              | Some p \<Rightarrow>
                  (case user_chats user_id d others of
                     Inl e \<Rightarrow> Inl e
                   | Inr rest \<Rightarrow>
                       Inr (\<lparr>ci_chat_id = c_chat_id chat, ci_is_user_1 = is_user_1,
                             ci_peer_id = u_user_id p, ci_peer_username = u_username p,
                             ci_peer_key = u_key p,
                             ci_messages = Some (rev (take 50 (rev (t_rows t))))\<rparr> # rest))))"

definition Database_get_user_chats :: "nat \<Rightarrow> database \<Rightarrow> error + chat_info list" where
  "Database_get_user_chats user_id d =
     user_chats user_id d (filter (\<lambda>c. c_user_1 c = user_id \<or> c_user_2 c = user_id) (chats d))"

definition Database_validate_username :: "string \<Rightarrow> database \<Rightarrow> bool" where
  "Database_validate_username username d =
     (find (\<lambda>u. u_username u = username) (users d) = None)"

text \<open>\<open>change_username\<close>: the \<open>UPDATE\<close> fails when another row holds the new name.\<close>

definition Database_change_username :: "nat \<Rightarrow> string \<Rightarrow> database \<Rightarrow> (error + unit) \<times> database" where
  "Database_change_username user_id username d =
     (if list_ex (\<lambda>u. u_user_id u = user_id) (users d)
         \<and> list_ex (\<lambda>u. u_user_id u \<noteq> user_id \<and> u_username u = username) (users d)
      then (Inl IntegrityError, d)
      else (Inr (), d\<lparr>users := map (\<lambda>u. if u_user_id u = user_id
                                          then u\<lparr>u_username := username\<rparr> else u) (users d)\<rparr>))"

definition Database_change_key :: "nat \<Rightarrow> string \<Rightarrow> database \<Rightarrow> database" where
  "Database_change_key user_id key d =
     d\<lparr>users := map (\<lambda>u. if u_user_id u = user_id then u\<lparr>u_key := key\<rparr> else u) (users d)\<rparr>"

text \<open>\<open>read_messages\<close>: \<open>UPDATE <chat_id> SET unread = 0 WHERE unread = 1\<close>\<close>

definition Database_read_messages :: "string \<Rightarrow> database \<Rightarrow> (error + unit) \<times> database" where
  "Database_read_messages chat_id d =
     (case tables d chat_id of
        None \<Rightarrow> (Inl OperationalError, d)
      | Some t \<Rightarrow>
          (Inr (), d\<lparr>tables := (tables d)(chat_id \<mapsto>
             t\<lparr>t_rows := map (\<lambda>m. if m_unread m then m\<lparr>m_unread := False\<rparr> else m)
                              (t_rows t)\<rparr>)\<rparr>))"

section \<open>The server: \<open>main.py\<close>\<close>

subsection \<open>Frames, sockets and the shared state\<close>

text \<open>
  What a client sends after the version tag is a pickled string (the MAC address, the
  public key, a candidate username) or a pickled dictionary with a \<open>'command'\<close> entry.
  The dictionaries are those of the protocol; \<open>OtherCommand\<close> is a dictionary whose
  \<open>'command'\<close> is none that the server knows. Other pickled values are not modelled.
\<close>

datatype command =
    CreateChat nat
  | ChangeUsername
  | SearchPeer string
  | SendMessage string nat string
  | ReadMessages string
  | OtherCommand

datatype frame = Str string | Cmd command

text \<open>The keys of a command dictionary, in the order the client inserts them.\<close>

fun keys :: "command \<Rightarrow> string list" where
  "keys (CreateChat peer_id) = [''command'', ''peer_id'']"
| "keys ChangeUsername = [''command'']"
| "keys (SearchPeer username) = [''command'', ''username'']"
| "keys (SendMessage chat_id peer_id msg) = [''command'', ''chat_id'', ''peer_id'', ''message'']"
| "keys (ReadMessages chat_id) = [''command'', ''chat_id'']"
| "keys OtherCommand = [''command'']"

text \<open>What the server sends.\<close>

datatype payload =
    Text string
  | IdUsername nat string
  | ChatInfo chat_info
  | ChangeKey nat string
  | SearchPeerResult "user list"
  | ReceiveMessage string "message option"
  | Echo command

type_synonym socket = nat

text \<open>
  The state that the handler threads share: the SQLite file, the dictionary \<open>clients\<close>,
  and the sockets, of which the model keeps the frames sent to each (oldest first) and
  whether it was closed. \<open>now\<close> is the reading of the UTC clock as \<open>send_message\<close>
  formats it. A frame travels as a value here; \<open>send\<close> to a socket is taken to succeed.
  One handler runs at a time: the interleaving of threads is not modelled.
\<close>

record server =
  database :: database
  clients :: "nat \<rightharpoonup> socket"
  sent :: "socket \<Rightarrow> payload list"
  is_closed :: "socket \<Rightarrow> bool"
  now :: string

definition send_frame :: "payload \<Rightarrow> socket \<Rightarrow> server \<Rightarrow> server" where
  "send_frame data connection s =
     s\<lparr>sent := (sent s)(connection := sent s connection @ [data])\<rparr>"

text \<open>
  What one client will send, in order. \<open>Inl e\<close> is a \<open>receive\<close> that raises \<open>e\<close>; at
  the end of the list the client has closed the connection, which \<open>_recv\<close> reports as
  \<open>ConnectionResetError\<close>.
\<close>

type_synonym script = "(error + frame) list"

definition receive_frame :: "script \<Rightarrow> (error + frame) \<times> script" where
  "receive_frame script =
     (case script of [] \<Rightarrow> (Inl ConnectionResetError, []) | x # rest \<Rightarrow> (x, rest))"

subsection \<open>\<open>get_username\<close>\<close>

definition ALLOWED_CHARS :: string where
  "ALLOWED_CHARS = ''_@ ''"

text \<open>
  \<open>str.isalnum\<close> on characters with code points below 256: at least one character, and
  each a letter or a digit.
\<close>

definition is_alnum :: "char \<Rightarrow> bool" where
  "is_alnum c =
     (let n = (of_char c :: nat) in
        (48 \<le> n \<and> n \<le> 57) \<or> (65 \<le> n \<and> n \<le> 90) \<or> (97 \<le> n \<and> n \<le> 122)
        \<or> n = 170 \<or> n = 178 \<or> n = 179 \<or> n = 181 \<or> n = 185 \<or> n = 186
        \<or> (188 \<le> n \<and> n \<le> 190) \<or> (192 \<le> n \<and> n \<le> 214)
        \<or> (216 \<le> n \<and> n \<le> 246) \<or> 248 \<le> n)"

definition isalnum :: "string \<Rightarrow> bool" where
  "isalnum s = (s \<noteq> [] \<and> list_all is_alnum s)"

text \<open>\<open>k in t\<close> for two strings: \<open>k\<close> occurs in \<open>t\<close>.\<close>

fun starts_with :: "string \<Rightarrow> string \<Rightarrow> bool" where
  "starts_with [] t = True"
| "starts_with (k # ks) [] = False"
| "starts_with (k # ks) (c # cs) = (k = c \<and> starts_with ks cs)"

fun str_in :: "string \<Rightarrow> string \<Rightarrow> bool" where
  "str_in k [] = (k = [])"
| "str_in k (c # cs) = (starts_with k (c # cs) \<or> str_in k cs)"

text \<open>
  The loop of \<open>get_username\<close>, one equation for each thing \<open>receive(client)\<close> can
  give. Iterating a dictionary gives its keys, so for a command the filter and
  \<open>isalnum\<close> see the keys; one that passes reaches \<open>validate_username\<close>, where SQLite
  cannot bind a dictionary.
\<close>

fun get_username :: "socket \<Rightarrow> script \<Rightarrow> server \<Rightarrow> (error + string) \<times> script \<times> server" where
  "get_username client [] s = (Inl ConnectionResetError, [], s)"
| "get_username client (Inl e # rest) s = (Inl e, rest, s)"
| "get_username client (Inr (Str username) # rest) s =
     (if \<not> isalnum (filter (\<lambda>char. \<not> str_in [char] ALLOWED_CHARS) username) then
        get_username client rest (send_frame (Text ''invalid username'') client s)
      else if Database_validate_username username (database s) then
        (Inr username, rest, send_frame (Text ''username accepted'') client s)
      else
        get_username client rest (send_frame (Text ''This username is already taken'') client s))"
| "get_username client (Inr (Cmd data) # rest) s =
     (if \<not> isalnum (concat (filter (\<lambda>char. \<not> str_in char ALLOWED_CHARS) (keys data))) then
        get_username client rest (send_frame (Text ''invalid username'') client s)
      else (Inl ProgrammingError, rest, s))"

subsection \<open>\<open>create_chat\<close> and \<open>send_message\<close>\<close>

text \<open>
  One round of the loop over \<open>_clients\<close> in \<open>create_chat\<close>: the requesting socket gets
  the peer's details, any other socket the user's (\<open>user[3]\<close> fails if the user row is
  missing). A socket object is always true, so \<open>if _client\<close> never skips.
\<close>

definition notify_chat ::
  "socket \<Rightarrow> nat \<Rightarrow> string \<Rightarrow> user option \<Rightarrow> user \<Rightarrow> socket \<Rightarrow> server \<Rightarrow> (error + unit) \<times> server" where
  "notify_chat client uid chat_id usr peer c s =
     (if c = client then
        (Inr (), send_frame (ChatInfo \<lparr>ci_chat_id = chat_id, ci_is_user_1 = True,
                   ci_peer_id = u_user_id peer, ci_peer_username = u_username peer,
                   ci_peer_key = u_key peer, ci_messages = None\<rparr>) c s)
      else
        (case usr of
           None \<Rightarrow> (Inl TypeError, s)
         | Some u \<Rightarrow>
             (Inr (), send_frame (ChatInfo \<lparr>ci_chat_id = chat_id, ci_is_user_1 = False,
                        ci_peer_id = uid, ci_peer_username = u_username u,
                        ci_peer_key = u_key u, ci_messages = None\<rparr>) c s)))"

fun notify_chats ::
  "socket \<Rightarrow> nat \<Rightarrow> string \<Rightarrow> user option \<Rightarrow> user \<Rightarrow> socket list \<Rightarrow> server \<Rightarrow> (error + unit) \<times> server" where
  "notify_chats client uid chat_id usr peer [] s = (Inr (), s)"
| "notify_chats client uid chat_id usr peer (c # cs) s =
     (case notify_chat client uid chat_id usr peer c s of
        (Inl e, s') \<Rightarrow> (Inl e, s')
      | (Inr u, s') \<Rightarrow> notify_chats client uid chat_id usr peer cs s')"

text \<open>
  \<open>create_chat\<close> of \<open>main.py\<close>. \<open>clients[_id]\<close> is a \<open>KeyError\<close> when the user is not
  registered, \<open>peer[0]\<close> a \<open>TypeError\<close> when the peer is no user, and the closing log
  line reads \<open>user[3]\<close>.
\<close>

definition create_chat :: "socket \<Rightarrow> nat \<Rightarrow> nat \<Rightarrow> server \<Rightarrow> (error + unit) \<times> server" where
  "create_chat client uid peer_id s =
     (case Database_create_chat uid peer_id (database s) of
        (Inl e, d) \<Rightarrow> (Inl e, s\<lparr>database := d\<rparr>)
      | (Inr chat_id, d) \<Rightarrow>
          (let s1 = s\<lparr>database := d\<rparr>;
               usr = Database_get_user_id uid d;
               peer = Database_get_user_id peer_id d
           in case clients s1 uid of
                None \<Rightarrow> (Inl KeyError, s1)
              | Some own \<Rightarrow>
                  (case peer of
                     None \<Rightarrow> (Inl TypeError, s1)
                   | Some p \<Rightarrow>
                       (let targets =
                              (case clients s1 (u_user_id p) of
                                 Some other \<Rightarrow> if u_user_id p \<noteq> uid then [own, other] else [own]
                               | None \<Rightarrow> [own])
                        in case notify_chats client uid chat_id usr p targets s1 of
                             (Inl e, s2) \<Rightarrow> (Inl e, s2)
                           | (Inr u, s2) \<Rightarrow>
                               (case usr of None \<Rightarrow> (Inl TypeError, s2)
                                          | Some u' \<Rightarrow> (Inr (), s2))))))"

text \<open>
  \<open>send_message\<close>: the row is stored with \<open>unread = not self_chat\<close>, and the stored row
  is relayed when the peer is in \<open>clients\<close> and the chat is not a self-chat.
\<close>

definition send_message :: "nat \<Rightarrow> string \<Rightarrow> nat \<Rightarrow> string \<Rightarrow> server \<Rightarrow> (error + unit) \<times> server" where
  "send_message uid chat_id peer_id msg s =
     (let dt = now s;
          self_chat = (uid = peer_id)
      in case Database_add_message chat_id uid msg dt (\<not> self_chat) (database s) of
           (Inl e, d) \<Rightarrow> (Inl e, s\<lparr>database := d\<rparr>)
         | (Inr msg_id, d) \<Rightarrow>
             (let s1 = s\<lparr>database := d\<rparr>
              in case clients s1 peer_id of
                   None \<Rightarrow> (Inr (), s1)
                 | Some peer_socket \<Rightarrow>
                     if \<not> self_chat then
                       (case Database_get_message chat_id msg_id d of
                          Inl e \<Rightarrow> (Inl e, s1)
                        | Inr row \<Rightarrow>
                            (Inr (), send_frame (ReceiveMessage chat_id row) peer_socket s1))
                     else (Inr (), s1)))"

subsection \<open>The command loop\<close>

lemma get_username_script:
  "get_username client script s = (r, script', s') \<Longrightarrow> length script' \<le> length script"
  by (induction client script s rule: get_username.induct)
     (auto split: if_splits dest: le_SucI)

text \<open>
  The \<open>while True\<close> loop of \<open>handle_client\<close>. It ends with the exception that leaves
  it. \<open>data['command']\<close> on a string is a \<open>TypeError\<close>; a command that no branch names
  is skipped.
\<close>

function serve :: "socket \<Rightarrow> nat \<Rightarrow> script \<Rightarrow> server \<Rightarrow> error \<times> server" where
  "serve client uid [] s = (ConnectionResetError, s)"
| "serve client uid (Inl e # rest) s = (e, s)"
| "serve client uid (Inr (Str t) # rest) s = (TypeError, s)"
| "serve client uid (Inr (Cmd (CreateChat peer_id)) # rest) s =
     (case create_chat client uid peer_id s of
        (Inl e, s') \<Rightarrow> (e, s')
      | (Inr u, s') \<Rightarrow> serve client uid rest s')"
| "serve client uid (Inr (Cmd ChangeUsername) # rest) s =
     (let s1 = send_frame (Echo ChangeUsername) client s
      in case clients s1 uid of
           None \<Rightarrow> (KeyError, s1)
         | Some c \<Rightarrow>
             (case get_username client rest (s1\<lparr>clients := (clients s1)(uid := None)\<rparr>) of
                (Inl e, rest', s2) \<Rightarrow> (e, s2)
              | (Inr username, rest', s2) \<Rightarrow>
                  (case Database_change_username uid username (database s2) of
                     (Inl e, d) \<Rightarrow> (e, s2\<lparr>database := d\<rparr>)
                   | (Inr u, d) \<Rightarrow>
                       serve client uid rest'
                         (s2\<lparr>database := d, clients := (clients s2)(uid \<mapsto> client)\<rparr>))))"
| "serve client uid (Inr (Cmd (SearchPeer username)) # rest) s =
     serve client uid rest
       (send_frame (SearchPeerResult (Database_get_users username (database s))) client s)"
| "serve client uid (Inr (Cmd (SendMessage chat_id peer_id msg)) # rest) s =
     (case send_message uid chat_id peer_id msg s of
        (Inl e, s') \<Rightarrow> (e, s')
      | (Inr u, s') \<Rightarrow> serve client uid rest s')"
| "serve client uid (Inr (Cmd (ReadMessages chat_id)) # rest) s =
     (case Database_read_messages chat_id (database s) of
        (Inl e, d) \<Rightarrow> (e, s\<lparr>database := d\<rparr>)
      | (Inr u, d) \<Rightarrow> serve client uid rest (s\<lparr>database := d\<rparr>))"
| "serve client uid (Inr (Cmd OtherCommand) # rest) s = serve client uid rest s"
  by pat_completeness auto
termination
  apply (relation "measure (\<lambda>(client, uid, script, s). length script)")
       apply simp_all
  apply (auto dest: get_username_script [OF sym])
  done

subsection \<open>\<open>handle_client\<close>\<close>

text \<open>
  A call of \<open>Database.get_user\<close> with the given positional arguments. The method is
  declared as \<open>get_user(self, ip, mac)\<close>: Python binds the arguments before the body runs
  and raises \<open>TypeError\<close> when their number is not two. SQLite binds strings; it cannot
  bind a dictionary.
\<close>

definition call_get_user :: "frame list \<Rightarrow> database \<Rightarrow> error + user option" where
  "call_get_user args d =
     (case args of
        [ip, mac] \<Rightarrow>
          (case (ip, mac) of
             (Str i, Str m) \<Rightarrow> Inr (Database_get_user i m d)
           | _ \<Rightarrow> Inl ProgrammingError)
      | _ \<Rightarrow> Inl TypeError)"

text \<open>
  Lines 65 to 80: the two branches on \<open>user\<close>. The result is \<open>user\<close>, \<open>username\<close>,
  \<open>registered\<close> and \<open>key_changed\<close>.
\<close>

definition authenticate ::
  "socket \<Rightarrow> string \<Rightarrow> frame \<Rightarrow> frame \<Rightarrow> user option \<Rightarrow> script \<Rightarrow> server
     \<Rightarrow> (error + user option \<times> string \<times> bool \<times> bool) \<times> script \<times> server" where
  "authenticate client ip mac key usr script s =
     (case usr of
        None \<Rightarrow>
          (case get_username client script (send_frame (Text ''unregistered'') client s) of
             (Inl e, script', s1) \<Rightarrow> (Inl e, script', s1)
           | (Inr username, script', s1) \<Rightarrow>
               (case (mac, key) of
                  (Str m, Str k) \<Rightarrow>
                    (case Database_add_user ip m username k (database s1) of
                       (Inl e, d) \<Rightarrow> (Inl e, script', s1\<lparr>database := d\<rparr>)
                     | (Inr usr', d) \<Rightarrow>
                         (Inr (usr', username, False, False), script', s1\<lparr>database := d\<rparr>))
                | _ \<Rightarrow> (Inl ProgrammingError, script', s1)))
      | Some u \<Rightarrow>
          (let s1 = send_frame (Text ''registered'') client s
           in if key \<noteq> Str (u_key u) then
                (case key of
                   Cmd data \<Rightarrow> (Inl ProgrammingError, script, s1)
                 | Str k \<Rightarrow>
                     (let s2 = s1\<lparr>database := Database_change_key (u_user_id u) k (database s1)\<rparr>
                      in case call_get_user [mac] (database s2) of
                           Inl e \<Rightarrow> (Inl e, script, s2)
                         | Inr None \<Rightarrow> (Inl TypeError, script, s2)
                         | Inr (Some u') \<Rightarrow>
                             (Inr (Some u', u_username u', True, True), script, s2)))
              else (Inr (Some u, u_username u, True, False), script, s1)))"

text \<open>
  The loop of the sync phase: each chat goes to the client, and a \<open>change_key\<close> notice
  to the peer when the key has changed, the peer is in \<open>clients\<close> and is not the user.
\<close>

fun send_chats :: "socket \<Rightarrow> nat \<Rightarrow> bool \<Rightarrow> string \<Rightarrow> chat_info list \<Rightarrow> server \<Rightarrow> server" where
  "send_chats client uid key_changed key [] s = s"
| "send_chats client uid key_changed key (chat # rest) s =
     (let s1 = send_frame (ChatInfo chat) client s;
          s2 = (case clients s1 (ci_peer_id chat) of
                  None \<Rightarrow> s1
                | Some peer_socket \<Rightarrow>
                    if key_changed \<and> ci_peer_id chat \<noteq> uid
                    then send_frame (ChangeKey uid key) peer_socket s1 else s1)
      in send_chats client uid key_changed key rest s2)"

text \<open>
  The body of the \<open>try\<close>. It leaves by an exception, which is returned with the value of
  \<open>_id\<close> at that moment (\<open>None\<close> until the user row is known) and the shared state.
  The lookup on line 62 is written as the source writes it, \<open>database.get_user(mac)\<close>.
\<close>

definition session :: "socket \<Rightarrow> string \<Rightarrow> script \<Rightarrow> server \<Rightarrow> error \<times> nat option \<times> server" where
  "session client ip script s =
     (case receive_frame script of
        (Inl e, script1) \<Rightarrow> (e, None, s)
      | (Inr mac, script1) \<Rightarrow>
          (case call_get_user [mac] (database s) of
             Inl e \<Rightarrow> (e, None, s)
           | Inr usr \<Rightarrow>
               (case receive_frame script1 of
                  (Inl e, script2) \<Rightarrow> (e, None, s)
                | (Inr key, script2) \<Rightarrow>
                    (case authenticate client ip mac key usr script2 s of
                       (Inl e, script3, s1) \<Rightarrow> (e, None, s1)
                     | (Inr (None, username, registered, key_changed), script3, s1) \<Rightarrow>
                         (TypeError, None, s1)
                     | (Inr (Some u, username, registered, key_changed), script3, s1) \<Rightarrow>
                         (let uid = u_user_id u;
                              s2 = send_frame (IdUsername uid username) client s1;
                              synced =
                                (if registered then
                                   (case Database_get_user_chats uid (database s2) of
                                      Inl e \<Rightarrow> Inl e
                                    | Inr cs \<Rightarrow>
                                        Inr (send_frame (Text ''sync complete'') client
                                               (send_chats client uid key_changed (u_key u) cs s2)))
                                 else Inr s2)
                          in case synced of
                               Inl e \<Rightarrow> (e, Some uid, s2)
                             | Inr s3 \<Rightarrow>
                                 (case serve client uid script3
                                         (s3\<lparr>clients := (clients s3)(uid \<mapsto> client)\<rparr>) of
                                    (e, s4) \<Rightarrow> (e, Some uid, s4)))))))"

text \<open>
  The two \<open>except\<close> clauses. A reset or aborted connection removes \<open>_id\<close> from
  \<open>clients\<close>, if it is there, and closes the socket; any other exception is logged.
\<close>

definition on_exception :: "error \<Rightarrow> nat option \<Rightarrow> socket \<Rightarrow> server \<Rightarrow> server" where
  "on_exception e uid client s =
     (if e = ConnectionResetError \<or> e = ConnectionAbortedError then
        (let s1 = (case uid of
                     None \<Rightarrow> s
                   | Some i \<Rightarrow> if i \<in> dom (clients s) then s\<lparr>clients := (clients s)(i := None)\<rparr>
                               else s)
         in s1\<lparr>is_closed := (is_closed s1)(client := True)\<rparr>)
      else s)"

definition handle_client :: "socket \<Rightarrow> string \<Rightarrow> script \<Rightarrow> server \<Rightarrow> server" where
  "handle_client client ip script s =
     (case session client ip script s of (e, uid, s') \<Rightarrow> on_exception e uid client s')"

section \<open>The client: decryption and the message label\<close>

text \<open>
  \<open>decrypt_message\<close> of the client's \<open>main.py\<close>. \<open>decrypt\<close> stands for
  \<open>pq_ntru.decrypt\<close>, which is not code of this repository: it returns the plaintext or
  raises an exception of class \<open>Exception\<close> (an interrupt or an exit of the interpreter
  is not an outcome of the call). A \<open>ValueError\<close> is swallowed, any other exception is
  logged first; the second component of the result lists what was logged.
\<close>

definition decrypt_message ::
  "(string \<Rightarrow> string \<Rightarrow> error + string) \<Rightarrow> string \<Rightarrow> string
     \<Rightarrow> (string \<times> string option) \<times> error list" where
  "decrypt_message decrypt msg key_dir =
     (case decrypt key_dir msg of
        Inr decrypted_message \<Rightarrow> ((msg, Some decrypted_message), [])
      | Inl e \<Rightarrow>
          if e = ValueError then ((msg, None), [])
          else ((msg, None), [e]))"

text \<open>The message label: its text, whether it is italic, and its width in \<open>dp\<close>.\<close>

record message_label =
  l_text :: string
  l_italic :: bool
  l_width :: nat

definition SIZES :: "((nat \<times> nat) \<times> nat) list" where
  "SIZES = [((0, 5), 80), ((5, 10), 110), ((10, 15), 140), ((15, 20), 170), ((20, 25), 200),
            ((25, 30), 230), ((30, 35), 260), ((35, 40), 290), ((40, 45), 320), ((45, 50), 350)]"

definition add_text :: "string option \<Rightarrow> message_label \<Rightarrow> message_label" where
  "add_text txt label =
     (let shown = (case txt of None \<Rightarrow> ''Unable to decrypt message'' | Some t \<Rightarrow> t);
          label1 = (case txt of None \<Rightarrow> label\<lparr>l_italic := True\<rparr> | Some t \<Rightarrow> label);
          label2 = label1\<lparr>l_text := shown\<rparr>
      in case find (\<lambda>sz. fst (fst sz) \<le> length shown \<and> length shown < snd (fst sz)) SIZES of
           Some sz \<Rightarrow> label2\<lparr>l_width := snd sz\<rparr>
         | None \<Rightarrow> label2\<lparr>l_width := 400\<rparr>)"

text \<open>
  The per-chat cache \<open>saved_chat\<close>: ciphertext to plaintext, or to \<open>None\<close> when the
  decryption failed.
\<close>

type_synonym saved_chat = "string \<rightharpoonup> string option"

text \<open>
  The text that \<open>ChatScreen.add_message\<close> hands to \<open>add_text\<close> on a new label: for an
  encrypted message the cache entry of its ciphertext, \<open>None\<close> on \<open>KeyError\<close>.
\<close>

definition new_label :: message_label where
  "new_label = \<lparr>l_text = [], l_italic = False, l_width = 0\<rparr>"

definition add_message :: "saved_chat \<Rightarrow> message \<Rightarrow> bool \<Rightarrow> message_label" where
  "add_message saved msg encrypted =
     (let shown = (if encrypted then (case saved (m_message msg) of None \<Rightarrow> None | Some p \<Rightarrow> p)
                   else Some (m_message msg))
      in add_text shown new_label)"

text \<open>\<open>dict.update\<close> with a list of pairs.\<close>

definition update_all :: "saved_chat \<Rightarrow> (string \<times> string option) list \<Rightarrow> saved_chat" where
  "update_all saved pairs = foldl (\<lambda>m p. m(fst p \<mapsto> snd p)) saved pairs"

text \<open>
  The \<open>receive_message\<close> branch of \<open>HomeScreen.listen\<close>: decrypt the one ciphertext,
  update the cache, add the message to the screen.
\<close>

definition on_receive_message ::
  "(string \<Rightarrow> string \<Rightarrow> error + string) \<Rightarrow> string \<Rightarrow> message \<Rightarrow> saved_chat
     \<Rightarrow> saved_chat \<times> message_label" where
  "on_receive_message decrypt key_dir msg saved =
     (let decrypted_message = [fst (decrypt_message decrypt (m_message msg) key_dir)];
          saved' = update_all saved decrypted_message
      in (saved', add_message saved' msg True))"

text \<open>
  \<open>HomeScreen.add_existing_chat\<close>: decrypt the peer's messages that the cache file does
  not hold, update and reload the cache, then add every message to the screen.
\<close>

definition add_existing_chat ::
  "(string \<Rightarrow> string \<Rightarrow> error + string) \<Rightarrow> string \<Rightarrow> nat \<Rightarrow> message list \<Rightarrow> saved_chat
     \<Rightarrow> saved_chat \<times> message_label list" where
  "add_existing_chat decrypt key_dir peer_id messages saved =
     (let messages_to_decrypt =
            map m_message (filter (\<lambda>m. m_message m \<notin> dom saved \<and> m_sender_id m = peer_id) messages);
          decrypted_messages =
            map (\<lambda>ct. fst (decrypt_message decrypt ct key_dir)) messages_to_decrypt;
          saved' = update_all saved decrypted_messages
      in (saved', map (\<lambda>m. add_message saved' m True) messages))"

section \<open>Sequences of \<open>create_chat\<close> calls\<close>

text \<open>
  The store after a sequence of \<open>Database.create_chat\<close> calls, of whichever sessions,
  each on what the one before left. A call that raises leaves the store as it was.
\<close>

fun create_chats :: "(nat \<times> nat) list \<Rightarrow> database \<Rightarrow> database" where
  "create_chats [] d = d"
| "create_chats (pair # pairs) d =
     create_chats pairs (snd (Database_create_chat (fst pair) (snd pair) d))"

text \<open>
  What holds of the chat rows throughout: the ids are distinct (the primary key), and
  each id is the name formatted from the two users of its row.
\<close>

definition chats_ok :: "database \<Rightarrow> bool" where
  "chats_ok d =
     (distinct (map c_chat_id (chats d))
      \<and> (\<forall>c \<in> set (chats d). c_chat_id c = chat_name (c_user_1 c) (c_user_2 c)))"

section \<open>Substring search without regard to case\<close>

text \<open>
  The search as the claim words it: the query occurs in the username, where the letters
  \<open>A\<close> to \<open>Z\<close> equal their lower-case forms. \<open>starts_with_ci k t\<close> says that \<open>t\<close>
  begins with \<open>k\<close>, \<open>contains_ci k t\<close> that \<open>k\<close> occurs in \<open>t\<close>.
\<close>

fun starts_with_ci :: "string \<Rightarrow> string \<Rightarrow> bool" where
  "starts_with_ci [] t = True"
| "starts_with_ci (k # ks) [] = False"
| "starts_with_ci (k # ks) (c # cs) = (lower_code k = lower_code c \<and> starts_with_ci ks cs)"

fun contains_ci :: "string \<Rightarrow> string \<Rightarrow> bool" where
  "contains_ci k [] = (k = [])"
| "contains_ci k (c # cs) = (starts_with_ci k (c # cs) \<or> contains_ci k cs)"

section \<open>Example states\<close>

text \<open>
  Three users, a chat between the first two with one unread message, and a chat between
  the first and the third; the second user is connected on socket 7.
\<close>

text \<open>The 17 bytes that \<open>pickle.dumps('hi')\<close> returns (protocol 4).\<close>

definition pickled_hi :: bytes where
  "pickled_hi =
     [CHR 0x80, CHR 0x04, CHR 0x95, CHR 0x06, CHR 0x00, CHR 0x00, CHR 0x00, CHR 0x00, CHR 0x00,
      CHR 0x00, CHR 0x00, CHR 0x8C, CHR 0x02, CHR ''h'', CHR ''i'', CHR 0x94, CHR ''.'']"

definition alice :: user where
  "alice = \<lparr>u_user_id = 1, u_ip = ''10.0.0.1'', u_mac = ''aa:aa:aa:aa:aa:aa'',
            u_username = ''alice'', u_key = ''KA''\<rparr>"

definition bob :: user where
  "bob = \<lparr>u_user_id = 2, u_ip = ''10.0.0.2'', u_mac = ''bb:bb:bb:bb:bb:bb'',
          u_username = ''bob'', u_key = ''KB''\<rparr>"

definition carol :: user where
  "carol = \<lparr>u_user_id = 3, u_ip = ''10.0.0.3'', u_mac = ''cc:cc:cc:cc:cc:cc'',
            u_username = ''Carol_3'', u_key = ''KC''\<rparr>"

definition hello :: message where
  "hello = \<lparr>m_message_id = 1, m_sender_id = 1, m_message = ''c1ph3r'',
            m_dt = ''01-09-2024 09:59'', m_unread = True\<rparr>"

definition howdy :: message where
  "howdy = \<lparr>m_message_id = 1, m_sender_id = 3, m_message = ''c0d3d'',
            m_dt = ''01-09-2024 09:58'', m_unread = True\<rparr>"

definition table_1_2 :: chat_table where
  "table_1_2 = \<lparr>t_rows = [hello], t_seq = 1, t_check_1 = 1, t_check_2 = 2\<rparr>"

definition table_1_3 :: chat_table where
  "table_1_3 = \<lparr>t_rows = [howdy], t_seq = 1, t_check_1 = 1, t_check_2 = 3\<rparr>"

definition example_db :: database where
  "example_db =
     \<lparr>users = [alice, bob, carol], users_seq = 3,
      chats = [\<lparr>c_chat_id = ''chat_1_2'', c_user_1 = 1, c_user_2 = 2\<rparr>,
               \<lparr>c_chat_id = ''chat_1_3'', c_user_1 = 1, c_user_2 = 3\<rparr>],
      tables = [''chat_1_2'' \<mapsto> table_1_2, ''chat_1_3'' \<mapsto> table_1_3]\<rparr>"

definition example_server :: server where
  "example_server =
     \<lparr>database = example_db, clients = [2 \<mapsto> 7], sent = (\<lambda>c. []),
      is_closed = (\<lambda>c. False), now = ''01-09-2024 10:00''\<rparr>"

section \<open>Properties of the wire protocol\<close>

lemma lt10: "d < 10 \<Longrightarrow> d \<in> {0, 1, 2, 3, 4, 5, 6, 7, 8, 9 :: nat}"
  by auto

lemma of_char_digit_char: "d < 10 \<Longrightarrow> (of_char (digit_char d) :: nat) = 48 + d"
  using lt10[of d] by (auto simp: digit_char_def)

lemma is_digit_digit_char: "d < 10 \<Longrightarrow> is_digit (of_char (digit_char d))"
  by (simp add: of_char_digit_char is_digit_def)

lemma str_nat_digits: "list_all is_digit (map of_char (str_nat n))"
  by (induction n rule: str_nat.induct) (subst str_nat.simps, simp add: is_digit_digit_char)

lemma str_nat_nonempty: "str_nat n \<noteq> []"
  by (subst str_nat.simps) simp

lemma digits_ok_all_digits: "s \<noteq> [] \<Longrightarrow> list_all is_digit s \<Longrightarrow> digits_ok s"
  by (induction s rule: digits_ok.induct) (auto simp: is_digit_def)

lemma digits_val_snoc: "is_digit c \<Longrightarrow> digits_val (s @ [c]) = 10 * digits_val s + (c - 48)"
  by (simp add: digits_val_def)

lemma digits_val_str_nat: "digits_val (map of_char (str_nat n)) = n"
proof (induction n rule: str_nat.induct)
  case (1 n)
  show ?case
  proof (cases "n < 10")
    case True
    then show ?thesis
      by (subst str_nat.simps) (simp add: digits_val_def is_digit_def of_char_digit_char)
  next
    case False
    with 1 have "digits_val (map of_char (str_nat (n div 10))) = n div 10" by simp
    with False show ?thesis
      by (subst str_nat.simps) (simp add: digits_val_snoc is_digit_def of_char_digit_char)
  qed
qed

lemma length_str_nat: "n < 10 ^ k \<Longrightarrow> 0 < k \<Longrightarrow> length (str_nat n) \<le> k"
proof (induction n arbitrary: k rule: str_nat.induct)
  case (1 n)
  show ?case
  proof (cases "n < 10")
    case True
    with 1(3) show ?thesis by (subst str_nat.simps) simp
  next
    case False
    with 1(2) have "1 < k" by (cases k; cases "k - 1") auto
    then obtain j where k: "k = Suc j" and j: "0 < j" by (cases k) auto
    from 1(2) k have "n div 10 < 10 ^ j" by (simp add: less_mult_imp_div_less mult.commute)
    with 1(1)[OF False _ j] have "length (str_nat (n div 10)) \<le> j" by simp
    with False k show ?thesis by (subst str_nat.simps) simp
  qed
qed

lemma utf8_decode_ascii: "list_all (\<lambda>b. b < 128) bs \<Longrightarrow> utf8_decode bs = Some bs"
  by (induction bs) auto

lemma strip_between:
  assumes "s \<noteq> []" "\<not> P (hd s)" "\<not> P (last s)" "P x"
  shows "rev (dropWhile P (rev (dropWhile P (s @ replicate k x)))) = s"
proof -
  from assms obtain c t where s: "s = c # t" by (cases s) auto
  have r: "dropWhile P (rev s) = rev s"
    using assms(1,3) by (cases s rule: rev_cases) auto
  have "dropWhile P (replicate k x @ rev s) = dropWhile P (rev s)"
    by (rule dropWhile_append2) (simp add: assms(4))
  with r s assms(2) show ?thesis
    by simp
qed

lemma header_code_points:
  "(map of_char (length_header n) :: nat list)
     = map of_char (str_nat n) @ replicate (HEADER - length (str_nat n)) 32"
  by (simp add: length_header_def)

lemma decode_header: "decode (length_header n) = Inr (map of_char (length_header n))"
proof -
  have "list_all (\<lambda>b. b < 128) (map of_char (str_nat n) :: nat list)"
    using str_nat_digits[of n] by (auto simp: list_all_iff is_digit_def)
  then have "list_all (\<lambda>b. b < 128) (map of_char (length_header n) :: nat list)"
    unfolding header_code_points by (auto simp: list_all_iff)
  then show ?thesis
    by (simp add: decode_def utf8_decode_ascii)
qed

lemma py_int_header:
  "py_int (strip (map of_char (length_header n))) = Inr (int n)"
proof -
  let ?ds = "map of_char (str_nat n) :: nat list"
  have ne: "?ds \<noteq> []" by (simp add: str_nat_nonempty)
  have dg: "list_all is_digit ?ds" by (rule str_nat_digits)
  from ne dg have hd: "is_digit (hd ?ds)"
    by (cases ?ds) auto
  from ne dg have lst: "is_digit (last ?ds)"
    by (metis last_in_set list_all_iff)
  have s1: "strip (map of_char (length_header n)) = ?ds"
    unfolding header_code_points strip_def
    using hd lst by (intro strip_between[OF ne]) (auto simp: is_digit_def is_space_def)
  have asc: "map to_ascii ?ds = ?ds"
    using dg by (intro map_idI) (auto simp: list_all_iff is_digit_def to_ascii_def)
  have s2: "rev (dropWhile is_c_space (rev (dropWhile is_c_space ?ds))) = ?ds"
    using strip_between[OF ne, of is_c_space 32 0] hd lst
    by (auto simp: is_digit_def is_c_space_def)
  have sign: "hd ?ds \<noteq> 45 \<and> hd ?ds \<noteq> 43"
    using hd by (auto simp: is_digit_def)
  show ?thesis
    unfolding s1 py_int_def asc s2 Let_def
    using sign digits_ok_all_digits[OF ne dg] by (simp add: digits_val_str_nat)
qed

lemma length_header_64: "n < 10 ^ 64 \<Longrightarrow> length (length_header n) = HEADER"
  using length_str_nat[of n 64] by (simp add: length_header_def HEADER_def)

lemma recv_payload_collects:
  "fst (recv_payload (int (length data + length p)) data \<lparr>wire = p @ rest, arrivals = ks\<rparr>)
     = Inr (data @ p)
   \<and> wire (snd (recv_payload (int (length data + length p)) data \<lparr>wire = p @ rest, arrivals = ks\<rparr>))
     = rest"
proof (induction "length p" arbitrary: p data ks rule: less_induct)
  case less
  show ?case
  proof (cases "p = []")
    case True
    then show ?thesis by (subst (1 2) recv_payload.simps) simp
  next
    case False
    define m where "m = (case ks of [] \<Rightarrow> length p | k # _ \<Rightarrow> min (length p) (max 1 k))"
    define ks' where "ks' = (case ks of [] \<Rightarrow> [] | _ # t \<Rightarrow> t)"
    from False have m: "0 < m" "m \<le> length p"
      by (auto simp: m_def split: list.splits)
    have rc: "recv_checked (length p) \<lparr>wire = p @ rest, arrivals = ks\<rparr>
              = (Inr (take m p), \<lparr>wire = drop m p @ rest, arrivals = ks'\<rparr>)"
    proof (cases ks)
      case Nil
      with False show ?thesis
        by (simp add: recv_checked_def recv_def m_def ks'_def)
    next
      case (Cons k t)
      with m have "take m p \<noteq> []" by auto
      with Cons show ?thesis
        by (simp add: recv_checked_def recv_def m_def ks'_def Let_def)
    qed
    have lp: "length (drop m p) < length p" using m by simp
    have eq: "length (data @ take m p) + length (drop m p) = length data + length p"
      using m by simp
    from less[OF lp, of "data @ take m p" ks'] 
    have ih: "fst (recv_payload (int (length data + length p)) (data @ take m p) \<lparr>wire = drop m p @ rest, arrivals = ks'\<rparr>)
         = Inr (data @ p) \<and> 
        wire (snd (recv_payload (int (length data + length p)) (data @ take m p) \<lparr>wire = drop m p @ rest, arrivals = ks'\<rparr>)) = rest"
      unfolding eq by simp
    have n: "nat (int (length data + length p) - int (length data)) = length p" by simp
    show ?thesis
      apply (subst (1 2) recv_payload.simps)
      using False ih by (simp add: n rc del: of_nat_add)
  qed
qed


text \<open>
  What \<open>send\<close> writes, and what \<open>receive\<close> does with it when the first read finds the
  whole header. \<open>send\<close> appends the header and then the payload. From a stream that
  begins with the frame of \<open>v\<close>, \<open>receive\<close> returns \<open>v\<close> and leaves exactly the bytes
  after the frame, in whatever pieces the payload arrives; the payload length has at most
  64 digits, as any length of a Python \<open>bytes\<close> has, and unpickling the pickled value
  gives the value back.
\<close>

lemma send_appends_frame:
  "wire (send dumps v c) = wire c @ length_header (length (dumps v)) @ dumps v
   \<and> arrivals (send dumps v c) = arrivals c"
  by (simp add: send_def Let_def)

lemma receive_reads_one_frame:
  assumes pickle: "loads (dumps v) = Inr v"
    and size: "length (dumps v) < 10 ^ 64"
    and frame: "wire c = length_header (length (dumps v)) @ dumps v @ rest"
    and whole: "arrivals c = [] \<or> HEADER \<le> hd (arrivals c)"
  shows "fst (receive loads c) = Inr v \<and> wire (snd (receive loads c)) = rest"
proof -
  let ?n = "length (dumps v)"
  let ?h = "length_header ?n"
  define ks where "ks = (case arrivals c of [] \<Rightarrow> [] | _ # t \<Rightarrow> t)"
  have len: "length ?h = 64"
    using length_header_64[OF size] by (simp add: HEADER_def)
  have head: "recv_checked HEADER c = (Inr ?h, \<lparr>wire = dumps v @ rest, arrivals = ks\<rparr>)"
  proof (cases "arrivals c")
    case Nil
    with len frame show ?thesis
      by (cases c) (auto simp: recv_checked_def recv_def HEADER_def ks_def)
  next
    case (Cons k t)
    with whole have "64 \<le> k" by (simp add: HEADER_def)
    then have "min 64 (max (Suc 0) k) = 64" by simp
    with Cons len frame show ?thesis
      by (cases c) (auto simp: recv_checked_def recv_def HEADER_def ks_def Let_def)
  qed
  have pay: "fst (recv_payload (int ?n) [] \<lparr>wire = dumps v @ rest, arrivals = ks\<rparr>) = Inr (dumps v)
             \<and> wire (snd (recv_payload (int ?n) [] \<lparr>wire = dumps v @ rest, arrivals = ks\<rparr>)) = rest"
    using recv_payload_collects[of "[]" "dumps v" rest ks] by simp
  obtain r c2 where rp: "recv_payload (int ?n) [] \<lparr>wire = dumps v @ rest, arrivals = ks\<rparr> = (r, c2)"
    by (cases "recv_payload (int ?n) [] \<lparr>wire = dumps v @ rest, arrivals = ks\<rparr>")
  with pay have r: "r = Inr (dumps v)" and c2: "wire c2 = rest" by simp_all
  have rec: "receive loads c = (Inr v, c2)"
    unfolding receive_def head
    by (simp add: decode_header py_int_header rp r pickle)
  show ?thesis
    using rec c2 by simp
qed

lemma str_nat_17: "str_nat 17 = ''17''"
  by (simp add: str_nat.simps digit_char_def)

text \<open>
  Claim C1. The round trip fails when the first read returns less than the 64 header
  bytes, since \<open>receive\<close> reads the header with one \<open>recv\<close> and takes what it gets for
  the header. The value \<open>'hi'\<close> pickles to 17 bytes, so \<open>send\<close> writes \<open>17\<close>, 62 spaces
  and the 17 bytes. The first read returns one byte: \<open>receive\<close> takes \<open>1\<close> for the
  length, reads the one byte \<open>7\<close> as the payload and unpickles that; the rest of the
  header and the whole payload stay unread.
\<close>

theorem short_header_read_misparses:
  "wire (send (\<lambda>v. pickled_hi) ''hi'' \<lparr>wire = [], arrivals = [1]\<rparr>)
     = ''17'' @ replicate 62 CHR '' '' @ pickled_hi
   \<and> receive loads (send (\<lambda>v. pickled_hi) ''hi'' \<lparr>wire = [], arrivals = [1]\<rparr>)
     = (loads ''7'', \<lparr>wire = replicate 62 CHR '' '' @ pickled_hi, arrivals = []\<rparr>)"
proof -
  have len: "length pickled_hi = 17"
    by (simp add: pickled_hi_def)
  have sent: "send (\<lambda>v. pickled_hi) ''hi'' \<lparr>wire = [], arrivals = [1]\<rparr>
              = \<lparr>wire = ''17'' @ replicate 62 CHR '' '' @ pickled_hi, arrivals = [1]\<rparr>"
    by (simp add: send_def length_header_def len str_nat_17 HEADER_def Let_def)
  have head: "recv_checked HEADER \<lparr>wire = ''17'' @ replicate 62 CHR '' '' @ pickled_hi, arrivals = [1]\<rparr>
              = (Inr ''1'', \<lparr>wire = CHR ''7'' # replicate 62 CHR '' '' @ pickled_hi, arrivals = []\<rparr>)"
    by (simp add: recv_checked_def recv_def HEADER_def Let_def)
  have one: "py_int (strip [49]) = Inr 1"
    by (simp add: py_int_def strip_def is_space_def is_c_space_def to_ascii_def is_digit_def
          digits_val_def Let_def)
  have dec: "decode ''1'' = Inr [49]"
    by (simp add: decode_def)
  have pay: "recv_payload 1 [] \<lparr>wire = CHR ''7'' # replicate 62 CHR '' '' @ pickled_hi, arrivals = []\<rparr>
             = (Inr ''7'', \<lparr>wire = replicate 62 CHR '' '' @ pickled_hi, arrivals = []\<rparr>)"
    by (simp add: recv_payload.simps [of 1 "[]"] recv_payload.simps [of 1 "''7''"]
          recv_checked_def recv_def)
  show ?thesis
    unfolding sent receive_def head
    by (simp add: dec one pay)
qed

section \<open>Properties of the store and of the server\<close>

text \<open>
  Claim C8. When the named chat table exists, \<open>read_messages\<close> returns normally, every
  row of that table has \<open>unread\<close> cleared and is otherwise as it was, every other table
  is unchanged, and so are the users and the chats; the command loop does exactly this
  for a \<open>read_messages\<close> command and goes on.
\<close>

theorem read_messages_clears_named_chat:
  assumes "tables d chat_id = Some t"
  shows "fst (Database_read_messages chat_id d) = Inr ()
       \<and> tables (snd (Database_read_messages chat_id d)) chat_id
           = Some (t\<lparr>t_rows := map (\<lambda>m. m\<lparr>m_unread := False\<rparr>) (t_rows t)\<rparr>)
       \<and> (\<forall>m \<in> set (t_rows (the (tables (snd (Database_read_messages chat_id d)) chat_id))).
             \<not> m_unread m)
       \<and> (\<forall>other. other \<noteq> chat_id \<longrightarrow>
             tables (snd (Database_read_messages chat_id d)) other = tables d other)
       \<and> users (snd (Database_read_messages chat_id d)) = users d
       \<and> chats (snd (Database_read_messages chat_id d)) = chats d
       \<and> serve client uid (Inr (Cmd (ReadMessages chat_id)) # rest) (s\<lparr>database := d\<rparr>)
           = serve client uid rest (s\<lparr>database := snd (Database_read_messages chat_id d)\<rparr>)"
proof -
  have eq: "map (\<lambda>m. if m_unread m then m\<lparr>m_unread := False\<rparr> else m) (t_rows t)
            = map (\<lambda>m. m\<lparr>m_unread := False\<rparr>) (t_rows t)"
    by (rule map_cong) auto
  show ?thesis
    using assms by (simp add: Database_read_messages_def eq)
qed

theorem read_messages_clears_named_chat_witness:
  "tables (snd (Database_read_messages ''chat_1_2'' example_db)) ''chat_1_2''
     = Some (table_1_2\<lparr>t_rows := [hello\<lparr>m_unread := False\<rparr>]\<rparr>)
   \<and> tables (snd (Database_read_messages ''chat_1_2'' example_db)) ''chat_1_3''
     = Some table_1_3"
  using read_messages_clears_named_chat [of example_db "''chat_1_2''" table_1_2]
  by (simp add: example_db_def table_1_2_def)

text \<open>
  Claim C3. For a \<open>send_message\<close> command of a sender who is one of the two users of
  an existing chat table: \<open>send_message\<close> returns normally; exactly one row is appended
  to that table, with the sender, the text, the clock reading and \<open>unread\<close> true exactly
  when the named peer is not the sender; no other table, no user and no chat row changes;
  the registry is unchanged; the peer's registered socket gets exactly one
  \<open>receive_message\<close> frame, carrying the row read back by its id, when the peer is
  registered and is not the sender, and nothing is sent otherwise; and no socket other
  than the peer's registered one, so not the sender's, is sent anything.
\<close>

theorem send_message_persists_and_relays:
  assumes tab: "tables (database s) chat_id = Some t"
    and member: "uid = t_check_1 t \<or> uid = t_check_2 t"
  shows "let row = \<lparr>m_message_id = t_seq t + 1, m_sender_id = uid, m_message = msg,
                    m_dt = now s, m_unread = (uid \<noteq> peer_id)\<rparr>;
             s' = snd (send_message uid chat_id peer_id msg s)
         in fst (send_message uid chat_id peer_id msg s) = Inr ()
       \<and> tables (database s') chat_id
           = Some (t\<lparr>t_rows := t_rows t @ [row], t_seq := t_seq t + 1\<rparr>)
       \<and> (\<forall>other. other \<noteq> chat_id \<longrightarrow> tables (database s') other = tables (database s) other)
       \<and> users (database s') = users (database s)
       \<and> chats (database s') = chats (database s)
       \<and> clients s' = clients s
       \<and> sent s' =
           (case clients s peer_id of
              None \<Rightarrow> sent s
            | Some peer_socket \<Rightarrow>
                if uid \<noteq> peer_id
                then (sent s)(peer_socket := sent s peer_socket @
                        [ReceiveMessage chat_id
                           (find (\<lambda>m. m_message_id m = t_seq t + 1) (t_rows t @ [row]))])
                else sent s)
       \<and> (\<forall>c. clients s peer_id \<noteq> Some c \<longrightarrow> sent s' c = sent s c)"
  using tab member
  by (cases "clients s peer_id")
     (auto simp: send_message_def Database_add_message_def Database_get_message_def
                 send_frame_def Let_def)

theorem send_message_persists_and_relays_witness:
  "fst (send_message 1 ''chat_1_2'' 2 ''x9'' example_server) = Inr ()
   \<and> sent (snd (send_message 1 ''chat_1_2'' 2 ''x9'' example_server)) 7
       = [ReceiveMessage ''chat_1_2''
            (Some \<lparr>m_message_id = 2, m_sender_id = 1, m_message = ''x9'',
                   m_dt = ''01-09-2024 10:00'', m_unread = True\<rparr>)]
   \<and> tables (database (snd (send_message 1 ''chat_1_2'' 2 ''x9'' example_server))) ''chat_1_2''
       = Some (table_1_2\<lparr>t_rows := [hello, \<lparr>m_message_id = 2, m_sender_id = 1, m_message = ''x9'',
                   m_dt = ''01-09-2024 10:00'', m_unread = True\<rparr>], t_seq := 2\<rparr>)"
  using send_message_persists_and_relays [of example_server "''chat_1_2''" table_1_2 1 "''x9''" 2]
  by (simp add: example_server_def example_db_def table_1_2_def hello_def Let_def)

lemma handshake_lookup_raises:
  "session client ip (Inr mac # rest) s = (TypeError, None, s)
   \<and> handle_client client ip (Inr mac # rest) s = s"
  by (simp add: handle_client_def session_def receive_frame_def call_get_user_def
        on_exception_def)

text \<open>
  Claim C2. The lookup of the handshake is the call \<open>database.get_user(mac)\<close>, one
  argument for the two parameters \<open>ip\<close> and \<open>mac\<close>, so it raises \<open>TypeError\<close> before
  any row is read. Neither \<open>'unregistered'\<close> nor \<open>'registered'\<close> is sent: not to a
  client whose (ip, mac) pair is unknown, and not to one whose pair is stored.
\<close>

theorem handshake_sends_no_status:
  "sent (handle_client 5 ''10.0.0.9'' [Inr (Str ''dd:dd:dd:dd:dd:dd''), Inr (Str ''KD'')]
           example_server) 5 = []
   \<and> Database_get_user ''10.0.0.9'' ''dd:dd:dd:dd:dd:dd'' (database example_server) = None
   \<and> sent (handle_client 6 ''10.0.0.1'' [Inr (Str ''aa:aa:aa:aa:aa:aa''), Inr (Str ''KA'')]
           example_server) 6 = []
   \<and> Database_get_user ''10.0.0.1'' ''aa:aa:aa:aa:aa:aa'' (database example_server) = Some alice"
  by (simp add: handle_client_def session_def receive_frame_def call_get_user_def
        on_exception_def example_server_def example_db_def Database_get_user_def
        alice_def bob_def carol_def)

text \<open>
  Claim C7. The user \<open>alice\<close> is stored with key \<open>KA\<close> and her peer \<open>bob\<close> is
  connected. She reconnects from her (ip, mac) pair with the key \<open>KA2\<close>. The handler
  stops at the lookup of the handshake: the store is as it was, key included, and the
  peer's socket is sent nothing.
\<close>

theorem key_change_not_persisted:
  "Database_get_user ''10.0.0.1'' ''aa:aa:aa:aa:aa:aa'' (database example_server) = Some alice
   \<and> u_key alice = ''KA''
   \<and> clients example_server 2 = Some 7
   \<and> database (handle_client 6 ''10.0.0.1''
        [Inr (Str ''aa:aa:aa:aa:aa:aa''), Inr (Str ''KA2'')] example_server) = example_db
   \<and> sent (handle_client 6 ''10.0.0.1''
        [Inr (Str ''aa:aa:aa:aa:aa:aa''), Inr (Str ''KA2'')] example_server) 7 = []"
  by (simp add: handle_client_def session_def receive_frame_def call_get_user_def
        on_exception_def example_server_def example_db_def Database_get_user_def
        alice_def bob_def carol_def)

text \<open>
  Claim C5, as the code has it. When the handler leaves by \<open>ConnectionResetError\<close> or
  \<open>ConnectionAbortedError\<close>, the entry of \<open>clients\<close> under the session's user id, if
  there is a user id, is removed and the socket is closed; every other entry and socket,
  the store and the frames sent are untouched. After any other exception the \<open>except\<close>
  clauses change nothing. \<open>handle_client\<close> is the session followed by these clauses.
\<close>

theorem connection_error_removes_presence:
  assumes "e = ConnectionResetError \<or> e = ConnectionAbortedError"
  shows "(\<forall>i. uid = Some i \<longrightarrow> clients (on_exception e uid client s) i = None)
       \<and> is_closed (on_exception e uid client s) client
       \<and> (\<forall>j. uid \<noteq> Some j \<longrightarrow> clients (on_exception e uid client s) j = clients s j)
       \<and> (\<forall>c. c \<noteq> client \<longrightarrow> is_closed (on_exception e uid client s) c = is_closed s c)
       \<and> database (on_exception e uid client s) = database s
       \<and> sent (on_exception e uid client s) = sent s
       \<and> (\<forall>e'. e' \<noteq> ConnectionResetError \<and> e' \<noteq> ConnectionAbortedError
             \<longrightarrow> on_exception e' uid client s = s)
       \<and> (\<forall>ip script s0. session client ip script s0 = (e, uid, s)
             \<longrightarrow> handle_client client ip script s0 = on_exception e uid client s)"
  using assms
  by (cases uid) (auto simp: on_exception_def handle_client_def Let_def)

theorem connection_error_removes_presence_witness:
  "clients (on_exception ConnectionResetError (Some 2) 7 example_server) 2 = None
   \<and> is_closed (on_exception ConnectionResetError (Some 2) 7 example_server) 7
   \<and> is_closed (handle_client 5 ''10.0.0.9'' [] example_server) 5"
  using connection_error_removes_presence [of ConnectionResetError "Some 2" 7 example_server]
    connection_error_removes_presence [of ConnectionResetError None 5 example_server]
  by (simp add: session_def receive_frame_def)

text \<open>
  Claim C5 as stated fails. A session that ends by another error than a reset or an abort
  leaves its socket open: here the \<open>TypeError\<close> of the handshake. And the \<open>except\<close>
  clauses, entered with an \<open>IntegrityError\<close> for a registered user, leave both the entry
  and the socket.
\<close>

theorem other_error_leaves_socket_open:
  "fst (session 5 ''10.0.0.9'' [Inr (Str ''dd:dd:dd:dd:dd:dd''), Inr (Str ''KD'')] example_server)
     = TypeError
   \<and> \<not> is_closed (handle_client 5 ''10.0.0.9''
          [Inr (Str ''dd:dd:dd:dd:dd:dd''), Inr (Str ''KD'')] example_server) 5
   \<and> clients (on_exception IntegrityError (Some 2) 7 example_server) 2 = Some 7
   \<and> \<not> is_closed (on_exception IntegrityError (Some 2) 7 example_server) 7"
  by (simp add: handle_client_def session_def receive_frame_def call_get_user_def
        on_exception_def example_server_def)

lemma str_in_single: "str_in [c] t = (c \<in> set t)"
  by (induction t) (auto split: list.splits)

lemma allowed_filter:
  "filter (\<lambda>char. \<not> str_in [char] ALLOWED_CHARS) u
     = filter (\<lambda>c. c \<noteq> CHR ''_'' \<and> c \<noteq> CHR ''@'' \<and> c \<noteq> CHR '' '') u"
  by (rule filter_cong) (auto simp: str_in_single ALLOWED_CHARS_def)

lemma validate_username_iff:
  "Database_validate_username u d = (\<forall>usr \<in> set (users d). u_username usr \<noteq> u)"
  by (auto simp: Database_validate_username_def find_None_iff)

text \<open>
  Claim C6. A candidate string is accepted exactly when, with every underscore, at-sign
  and space removed, it is non-empty and alphanumeric, and no user row holds the same
  string; then \<open>get_username\<close> replies \<open>'username accepted'\<close> and returns it. Otherwise
  it replies \<open>'invalid username'\<close> (first check) or \<open>'This username is already taken'\<close>
  and reads the next candidate. A candidate made only of the three punctuation characters,
  the empty one included, is invalid. And when \<open>add_user\<close> has stored a user under a
  name, the name was free before and is taken after: a well-formed resubmission of it is
  answered \<open>'This username is already taken'\<close>.
\<close>

theorem get_username_accepts_iff:
  "get_username client (Inr (Str u) # rest) s =
     (let remaining = filter (\<lambda>c. c \<noteq> CHR ''_'' \<and> c \<noteq> CHR ''@'' \<and> c \<noteq> CHR '' '') u;
          well_formed = (remaining \<noteq> [] \<and> list_all is_alnum remaining);
          unused = (\<forall>usr \<in> set (users (database s)). u_username usr \<noteq> u)
      in if well_formed \<and> unused then
           (Inr u, rest, send_frame (Text ''username accepted'') client s)
         else if \<not> well_formed then
           get_username client rest (send_frame (Text ''invalid username'') client s)
         else
           get_username client rest (send_frame (Text ''This username is already taken'') client s))
   \<and> (set u \<subseteq> {CHR ''_'', CHR ''@'', CHR '' ''} \<longrightarrow>
        get_username client (Inr (Str u) # rest) s
          = get_username client rest (send_frame (Text ''invalid username'') client s))
   \<and> (\<forall>ip mac key r d'. Database_add_user ip mac u key (database s) = (Inr r, d') \<longrightarrow>
        Database_validate_username u (database s) \<and> \<not> Database_validate_username u d'
        \<and> (isalnum (filter (\<lambda>c. c \<noteq> CHR ''_'' \<and> c \<noteq> CHR ''@'' \<and> c \<noteq> CHR '' '') u) \<longrightarrow>
             get_username client (Inr (Str u) # rest) (s\<lparr>database := d'\<rparr>)
               = get_username client rest
                   (send_frame (Text ''This username is already taken'') client
                      (s\<lparr>database := d'\<rparr>))))"
proof -
  let ?remaining = "filter (\<lambda>c. c \<noteq> CHR ''_'' \<and> c \<noteq> CHR ''@'' \<and> c \<noteq> CHR '' '') u"
  have step: "\<And>s. get_username client (Inr (Str u) # rest) s =
     (if \<not> isalnum ?remaining then
        get_username client rest (send_frame (Text ''invalid username'') client s)
      else if (\<forall>usr \<in> set (users (database s)). u_username usr \<noteq> u) then
        (Inr u, rest, send_frame (Text ''username accepted'') client s)
      else
        get_username client rest (send_frame (Text ''This username is already taken'') client s))"
    by (simp add: allowed_filter validate_username_iff)
  have first: "get_username client (Inr (Str u) # rest) s =
     (let remaining = ?remaining;
          well_formed = (remaining \<noteq> [] \<and> list_all is_alnum remaining);
          unused = (\<forall>usr \<in> set (users (database s)). u_username usr \<noteq> u)
      in if well_formed \<and> unused then
           (Inr u, rest, send_frame (Text ''username accepted'') client s)
         else if \<not> well_formed then
           get_username client rest (send_frame (Text ''invalid username'') client s)
         else
           get_username client rest (send_frame (Text ''This username is already taken'') client s))"
    unfolding step by (simp add: isalnum_def Let_def)
  have second: "set u \<subseteq> {CHR ''_'', CHR ''@'', CHR '' ''} \<longrightarrow>
        get_username client (Inr (Str u) # rest) s
          = get_username client rest (send_frame (Text ''invalid username'') client s)"
  proof
    assume "set u \<subseteq> {CHR ''_'', CHR ''@'', CHR '' ''}"
    then have "?remaining = []"
      by (auto simp: filter_empty_conv)
    then show "get_username client (Inr (Str u) # rest) s
          = get_username client rest (send_frame (Text ''invalid username'') client s)"
      unfolding step by (simp add: isalnum_def)
  qed
  have third: "\<forall>ip mac key r d'. Database_add_user ip mac u key (database s) = (Inr r, d') \<longrightarrow>
        Database_validate_username u (database s) \<and> \<not> Database_validate_username u d'
        \<and> (isalnum ?remaining \<longrightarrow>
             get_username client (Inr (Str u) # rest) (s\<lparr>database := d'\<rparr>)
               = get_username client rest
                   (send_frame (Text ''This username is already taken'') client
                      (s\<lparr>database := d'\<rparr>)))"
  proof (intro allI impI)
    fix ip mac key r d'
    assume a: "Database_add_user ip mac u key (database s) = (Inr r, d')"
    then have v: "Database_validate_username u (database s)"
      and nv: "\<not> Database_validate_username u d'"
      by (auto simp: Database_add_user_def validate_username_iff list_ex_iff Let_def
               split: if_splits)
    from nv have "\<not> (\<forall>usr \<in> set (users (database (s\<lparr>database := d'\<rparr>))). u_username usr \<noteq> u)"
      by (simp add: validate_username_iff)
    then have "isalnum ?remaining \<longrightarrow>
             get_username client (Inr (Str u) # rest) (s\<lparr>database := d'\<rparr>)
               = get_username client rest
                   (send_frame (Text ''This username is already taken'') client
                      (s\<lparr>database := d'\<rparr>))"
      unfolding step by auto
    with v nv show "Database_validate_username u (database s) \<and> \<not> Database_validate_username u d'
        \<and> (isalnum ?remaining \<longrightarrow>
             get_username client (Inr (Str u) # rest) (s\<lparr>database := d'\<rparr>)
               = get_username client rest
                   (send_frame (Text ''This username is already taken'') client
                      (s\<lparr>database := d'\<rparr>)))"
      by simp
  qed
  from first second third show ?thesis by (intro conjI)
qed

theorem get_username_accepts_iff_witness:
  "get_username 5 [Inr (Str ''__''), Inr (Str ''bob''), Inr (Str ''d_ave 7'')] example_server
     = (Inr ''d_ave 7'', [],
        send_frame (Text ''username accepted'') 5
          (send_frame (Text ''This username is already taken'') 5
             (send_frame (Text ''invalid username'') 5 example_server)))
   \<and> \<not> Database_validate_username ''d_ave 7''
         (snd (Database_add_user ''10.0.0.4'' ''dd:dd:dd:dd:dd:dd'' ''d_ave 7'' ''KD'' example_db))"
  using get_username_accepts_iff [of 5 "''__''" "[Inr (Str ''bob''), Inr (Str ''d_ave 7'')]" example_server]
    get_username_accepts_iff [of 5 "''bob''" "[Inr (Str ''d_ave 7'')]"
       "send_frame (Text ''invalid username'') 5 example_server"]
    get_username_accepts_iff [of 5 "''d_ave 7''" "[]"
       "send_frame (Text ''This username is already taken'') 5
             (send_frame (Text ''invalid username'') 5 example_server)"]
  by (simp add: example_server_def example_db_def alice_def bob_def carol_def is_alnum_def
        send_frame_def Database_add_user_def Database_validate_username_def Let_def)

section \<open>Chats and the search\<close>

lemma str_nat_inj: "str_nat a = str_nat b \<Longrightarrow> a = b"
  by (metis digits_val_str_nat)

lemma str_nat_no_underscore: "CHR ''_'' \<notin> set (str_nat n)"
proof
  assume "CHR ''_'' \<in> set (str_nat n)"
  then have "(of_char CHR ''_'' :: nat) \<in> set (map of_char (str_nat n))"
    by (simp only: set_map image_eqI)
  with str_nat_digits[of n] have "is_digit (of_char CHR ''_'')"
    by (simp only: list_all_iff)
  then show False by (simp add: is_digit_def)
qed

lemma takeWhile_until:
  "c \<notin> set xs \<Longrightarrow> takeWhile (\<lambda>x. x \<noteq> c) (xs @ c # ys) = xs"
  by (induction xs) auto

lemma split_at_underscore:
  assumes "CHR ''_'' \<notin> set xs" "CHR ''_'' \<notin> set xs'"
    and "xs @ CHR ''_'' # ys = xs' @ CHR ''_'' # ys'"
  shows "xs = xs' \<and> ys = ys'"
proof -
  have "takeWhile (\<lambda>c. c \<noteq> CHR ''_'') (xs @ CHR ''_'' # ys) = xs"
    using assms(1) by (rule takeWhile_until)
  moreover have "takeWhile (\<lambda>c. c \<noteq> CHR ''_'') (xs' @ CHR ''_'' # ys') = xs'"
    using assms(2) by (rule takeWhile_until)
  ultimately have "xs = xs'" using assms(3) by simp
  with assms(3) show ?thesis by simp
qed

lemma chat_name_inj: "chat_name a b = chat_name c d \<Longrightarrow> a = c \<and> b = d"
  unfolding chat_name_def
  using split_at_underscore[OF str_nat_no_underscore str_nat_no_underscore, of a "str_nat b" c "str_nat d"]
  by (auto dest: str_nat_inj)

lemma create_chat_ok:
  "chats_ok d \<Longrightarrow> chats_ok (snd (Database_create_chat a b d))"
  by (auto simp: chats_ok_def Database_create_chat_def Let_def list_ex_iff split: option.splits)

lemma create_chat_grows:
  "\<exists>new. chats (snd (Database_create_chat a b d)) = chats d @ new"
  by (auto simp: Database_create_chat_def Let_def split: option.splits)

lemma create_chat_has:
  "chats_ok d \<Longrightarrow> \<exists>c \<in> set (chats (snd (Database_create_chat a b d))). c_user_1 c = a \<and> c_user_2 c = b"
  by (auto simp: chats_ok_def Database_create_chat_def Let_def list_ex_iff
           split: option.splits dest!: chat_name_inj)

lemma create_chats_ok: "chats_ok d \<Longrightarrow> chats_ok (create_chats pairs d)"
  by (induction pairs arbitrary: d) (auto simp: create_chat_ok)

lemma create_chats_grows: "\<exists>new. chats (create_chats pairs d) = chats d @ new"
proof (induction pairs arbitrary: d)
  case Nil
  then show ?case by simp
next
  case (Cons p pairs)
  obtain n1 where "chats (snd (Database_create_chat (fst p) (snd p) d)) = chats d @ n1"
    using create_chat_grows by blast
  moreover obtain n2 where "chats (create_chats pairs (snd (Database_create_chat (fst p) (snd p) d)))
      = chats (snd (Database_create_chat (fst p) (snd p) d)) @ n2"
    using Cons.IH by blast
  ultimately show ?case by simp
qed

lemma create_chats_has:
  "chats_ok d \<Longrightarrow> (a, b) \<in> set pairs \<Longrightarrow>
     \<exists>c \<in> set (chats (create_chats pairs d)). c_user_1 c = a \<and> c_user_2 c = b"
proof (induction pairs arbitrary: d)
  case Nil
  then show ?case by simp
next
  case (Cons p pairs)
  let ?d1 = "snd (Database_create_chat (fst p) (snd p) d)"
  have ok1: "chats_ok ?d1" using Cons.prems(1) by (rule create_chat_ok)
  show ?case
  proof (cases "p = (a, b)")
    case True
    with create_chat_has[OF Cons.prems(1), of a b]
    obtain c where "c \<in> set (chats ?d1)" "c_user_1 c = a" "c_user_2 c = b" by auto
    moreover obtain new where "chats (create_chats pairs ?d1) = chats ?d1 @ new"
      using create_chats_grows by blast
    ultimately show ?thesis by auto
  next
    case False
    with Cons.prems(2) have "(a, b) \<in> set pairs" by auto
    from Cons.IH[OF ok1 this] show ?thesis by simp
  qed
qed

lemma at_most_one:
  "distinct (map f xs) \<Longrightarrow> \<forall>x \<in> set xs. P x \<longrightarrow> f x = k \<Longrightarrow> length (filter P xs) \<le> 1"
proof (induction xs)
  case Nil
  then show ?case by simp
next
  case (Cons x xs)
  show ?case
  proof (cases "P x")
    case True
    with Cons.prems have "\<forall>y \<in> set xs. \<not> P y"
      by (metis distinct.simps(2) image_eqI list.set_intros(1) list.set_intros(2) list.simps(9) set_map)
    then have "filter P xs = []" by (simp add: filter_empty_conv)
    with True show ?thesis by simp
  next
    case False
    with Cons show ?thesis by simp
  qed
qed

lemma create_chat_again:
  "chats_ok d \<Longrightarrow> c \<in> set (chats d) \<Longrightarrow> c_user_1 c = a \<Longrightarrow> c_user_2 c = b \<Longrightarrow>
     Database_create_chat a b d = (Inl IntegrityError, d)"
  by (auto simp: chats_ok_def Database_create_chat_def Let_def list_ex_iff)

text \<open>
  Claim C4, as the code has it: one chat for each ordered pair. After any sequence of
  \<open>create_chat\<close> calls on a fresh store the chat ids are distinct, each is
  \<open>chat_<user_1>_<user_2>\<close> of its own row, and no two rows have the same first and the
  same second user. A pair that was asked for has its row, and asking again raises
  \<open>IntegrityError\<close> and leaves the store as it is. Later calls only append: the rows that
  exist stay as they are. The id determines the ordered pair.
\<close>

theorem one_chat_per_ordered_pair:
  "distinct (map c_chat_id (chats (create_chats pairs Database_init)))
   \<and> (\<forall>c \<in> set (chats (create_chats pairs Database_init)).
         c_chat_id c = chat_name (c_user_1 c) (c_user_2 c))
   \<and> (\<forall>a b. length (filter (\<lambda>c. c_user_1 c = a \<and> c_user_2 c = b)
                         (chats (create_chats pairs Database_init))) \<le> 1)
   \<and> (\<forall>a b. (a, b) \<in> set pairs \<longrightarrow>
         (\<exists>c \<in> set (chats (create_chats pairs Database_init)). c_user_1 c = a \<and> c_user_2 c = b)
         \<and> Database_create_chat a b (create_chats pairs Database_init)
             = (Inl IntegrityError, create_chats pairs Database_init))
   \<and> (\<forall>more. take (length (chats (create_chats pairs Database_init)))
                   (chats (create_chats more (create_chats pairs Database_init)))
               = chats (create_chats pairs Database_init))
   \<and> (\<forall>a b c d. chat_name a b = chat_name c d \<longrightarrow> a = c \<and> b = d)"
proof -
  let ?d = "create_chats pairs Database_init"
  have "chats_ok Database_init" by (simp add: chats_ok_def Database_init_def)
  then have ok: "chats_ok ?d" by (rule create_chats_ok)
  then have 1: "distinct (map c_chat_id (chats ?d))"
    and 2: "\<forall>c \<in> set (chats ?d). c_chat_id c = chat_name (c_user_1 c) (c_user_2 c)"
    by (simp_all add: chats_ok_def)
  have 3: "\<forall>a b. length (filter (\<lambda>c. c_user_1 c = a \<and> c_user_2 c = b) (chats ?d)) \<le> 1"
  proof (intro allI)
    fix a b
    show "length (filter (\<lambda>c. c_user_1 c = a \<and> c_user_2 c = b) (chats ?d)) \<le> 1"
      by (rule at_most_one[OF 1, of _ "chat_name a b"]) (use 2 in auto)
  qed
  have 4: "\<forall>a b. (a, b) \<in> set pairs \<longrightarrow>
         (\<exists>c \<in> set (chats ?d). c_user_1 c = a \<and> c_user_2 c = b)
         \<and> Database_create_chat a b ?d = (Inl IntegrityError, ?d)"
  proof (intro allI impI)
    fix a b assume "(a, b) \<in> set pairs"
    from create_chats_has[OF \<open>chats_ok Database_init\<close> this]
    obtain c where c: "c \<in> set (chats ?d)" "c_user_1 c = a" "c_user_2 c = b" by auto
    with create_chat_again[OF ok c] 
    show "(\<exists>c \<in> set (chats ?d). c_user_1 c = a \<and> c_user_2 c = b)
         \<and> Database_create_chat a b ?d = (Inl IntegrityError, ?d)" by auto
  qed
  have 5: "\<forall>more. take (length (chats ?d)) (chats (create_chats more ?d)) = chats ?d"
  proof
    fix more
    obtain new where "chats (create_chats more ?d) = chats ?d @ new"
      using create_chats_grows by blast
    then show "take (length (chats ?d)) (chats (create_chats more ?d)) = chats ?d" by simp
  qed
  have 6: "\<forall>a b c d. chat_name a b = chat_name c d \<longrightarrow> a = c \<and> b = d"
    using chat_name_inj by blast
  from 1 2 3 4 5 6 show ?thesis by (intro conjI)
qed

lemma str_nat_small: "str_nat (Suc 0) = ''1''" "str_nat 2 = ''2''" "str_nat 3 = ''3''"
  by (simp_all add: str_nat.simps digit_char_def)

theorem one_chat_per_ordered_pair_witness:
  "length (filter (\<lambda>c. c_user_1 c = 1 \<and> c_user_2 c = 2)
             (chats (create_chats [(1, 2), (1, 2), (1, 3)] Database_init))) \<le> 1
   \<and> Database_create_chat 1 2 (create_chats [(1, 2), (1, 2), (1, 3)] Database_init)
     = (Inl IntegrityError, create_chats [(1, 2), (1, 2), (1, 3)] Database_init)"
proof -
  note all = one_chat_per_ordered_pair [of "[(1, 2), (1, 2), (1, 3)]"]
  have asked: "(1, 2) \<in> set [(1, 2), (1, 2), (1, 3 :: nat)]"
    by simp
  from all have once: "length (filter (\<lambda>c. c_user_1 c = 1 \<and> c_user_2 c = 2)
             (chats (create_chats [(1, 2), (1, 2), (1, 3)] Database_init))) \<le> 1"
    by blast
  from all asked
  have again: "Database_create_chat 1 2 (create_chats [(1, 2), (1, 2), (1, 3)] Database_init)
     = (Inl IntegrityError, create_chats [(1, 2), (1, 2), (1, 3)] Database_init)"
    by blast
  from once again show ?thesis by (rule conjI)
qed

text \<open>
  Claim C4 as stated fails. The chat of the users 1 and 2 exists as \<open>chat_1_2\<close>. User 2
  sends \<open>create_chat\<close> with \<open>peer_id\<close> 1: the call succeeds, and the same two users now
  have the second chat \<open>chat_2_1\<close>.
\<close>

theorem two_chats_for_one_pair:
  "c_chat_id (chats example_db ! 0) = ''chat_1_2''
   \<and> fst (create_chat 7 2 1 example_server) = Inr ()
   \<and> map (\<lambda>c. (c_chat_id c, c_user_1 c, c_user_2 c))
        (chats (database (snd (create_chat 7 2 1 example_server))))
      = [(''chat_1_2'', 1, 2), (''chat_1_3'', 1, 3), (''chat_2_1'', 2, 1)]"
  by (simp add: create_chat_def Database_create_chat_def example_server_def example_db_def
        chat_name_def str_nat_small Let_def Database_get_user_id_def alice_def bob_def carol_def
        notify_chat_def send_frame_def)

lemma like_percent: "like ''%'' t"
  by (induction t) auto

lemma starts_with_ci_nil: "starts_with_ci q [] = (q = [])"
  by (cases q) auto

lemma like_prefix:
  "CHR ''%'' \<notin> set q \<Longrightarrow> CHR ''_'' \<notin> set q \<Longrightarrow> like (q @ ''%'') t = starts_with_ci q t"
proof (induction q arbitrary: t)
  case Nil
  then show ?case by (simp add: like_percent)
next
  case (Cons k ks)
  then show ?case by (cases t) auto
qed

lemma like_contains:
  assumes "CHR ''%'' \<notin> set q" "CHR ''_'' \<notin> set q"
  shows "like (''%'' @ q @ ''%'') t = contains_ci q t"
proof (induction t)
  case Nil
  show ?case
    using like_prefix[OF assms, of "[]"] by (simp add: starts_with_ci_nil)
next
  case (Cons c cs)
  then show ?case
    using like_prefix[OF assms, of "c # cs"] by simp
qed

lemma contains_ci_empty: "contains_ci [] t"
  by (induction t) auto

lemma starts_with_ci_iff:
  "starts_with_ci q t = (\<exists>mid post. t = mid @ post \<and> map lower_code mid = map lower_code q)"
proof (induction q t rule: starts_with_ci.induct)
  case (1 t)
  then show ?case by simp
next
  case (2 k ks)
  then show ?case by auto
next
  case (3 k ks c cs)
  show ?case
  proof
    assume "starts_with_ci (k # ks) (c # cs)"
    with 3 obtain mid post where "cs = mid @ post" "map lower_code mid = map lower_code ks"
      and "lower_code k = lower_code c" by auto
    then have "c # cs = (c # mid) @ post \<and> map lower_code (c # mid) = map lower_code (k # ks)"
      by simp
    then show "\<exists>mid post. c # cs = mid @ post \<and> map lower_code mid = map lower_code (k # ks)"
      by blast
  next
    assume "\<exists>mid post. c # cs = mid @ post \<and> map lower_code mid = map lower_code (k # ks)"
    then obtain mid post where m: "c # cs = mid @ post" "map lower_code mid = map lower_code (k # ks)"
      by blast
    then obtain m ms where "mid = m # ms" by (cases mid) auto
    with m have "m = c" "cs = ms @ post" "lower_code c = lower_code k" "map lower_code ms = map lower_code ks"
      by auto
    with 3 show "starts_with_ci (k # ks) (c # cs)" by auto
  qed
qed

lemma contains_ci_iff:
  "contains_ci q t
     = (\<exists>pre mid post. t = pre @ mid @ post \<and> map lower_code mid = map lower_code q)"
proof (induction t)
  case Nil
  then show ?case by auto
next
  case (Cons c cs)
  show ?case
  proof
    assume "contains_ci q (c # cs)"
    then consider "starts_with_ci q (c # cs)" | "contains_ci q cs" by auto
    then show "\<exists>pre mid post. c # cs = pre @ mid @ post \<and> map lower_code mid = map lower_code q"
    proof cases
      case 1
      then obtain mid post where "c # cs = [] @ mid @ post" "map lower_code mid = map lower_code q"
        by (auto simp: starts_with_ci_iff)
      then show ?thesis by blast
    next
      case 2
      with Cons obtain pre mid post where "cs = pre @ mid @ post" "map lower_code mid = map lower_code q"
        by auto
      then have "c # cs = (c # pre) @ mid @ post \<and> map lower_code mid = map lower_code q" by simp
      then show ?thesis by blast
    qed
  next
    assume "\<exists>pre mid post. c # cs = pre @ mid @ post \<and> map lower_code mid = map lower_code q"
    then obtain pre mid post where m: "c # cs = pre @ mid @ post" "map lower_code mid = map lower_code q"
      by blast
    show "contains_ci q (c # cs)"
    proof (cases pre)
      case Nil
      with m have "starts_with_ci q (c # cs)" by (auto simp: starts_with_ci_iff)
      then show ?thesis by simp
    next
      case (Cons p ps)
      with m have "cs = ps @ mid @ post" by simp
      with m(2) Cons.IH have "contains_ci q cs" by blast
      then show ?thesis by simp
    qed
  qed
qed

text \<open>
  Claim C10, as the code has it. \<open>get_users\<close> returns, in table order, the users whose
  username matches the \<open>LIKE\<close> pattern \<open>%\<close>, query, \<open>%\<close>. For a query with neither
  \<open>%\<close> nor \<open>_\<close> in it these are exactly the users whose username contains the query
  when the letters \<open>A\<close> to \<open>Z\<close> count as their lower-case forms: some stretch of the
  username equals the query up to that. The empty query returns every user. The command
  loop answers a \<open>search_peer\<close> command with this list and goes on.
\<close>

theorem search_peer_is_like:
  "Database_get_users q d = filter (\<lambda>u. like (''%'' @ q @ ''%'') (u_username u)) (users d)
   \<and> (CHR ''%'' \<notin> set q \<and> CHR ''_'' \<notin> set q \<longrightarrow>
        Database_get_users q d = filter (\<lambda>u. contains_ci q (u_username u)) (users d))
   \<and> (\<forall>t. contains_ci q t
          = (\<exists>pre mid post. t = pre @ mid @ post \<and> map lower_code mid = map lower_code q))
   \<and> Database_get_users [] d = users d
   \<and> serve client uid (Inr (Cmd (SearchPeer q)) # rest) s
       = serve client uid rest
           (send_frame (SearchPeerResult (Database_get_users q (database s))) client s)"
proof -
  have a: "CHR ''%'' \<notin> set q \<and> CHR ''_'' \<notin> set q \<longrightarrow>
        Database_get_users q d = filter (\<lambda>u. contains_ci q (u_username u)) (users d)"
  proof
    assume "CHR ''%'' \<notin> set q \<and> CHR ''_'' \<notin> set q"
    then have "\<And>t. like (''%'' @ q @ ''%'') t = contains_ci q t"
      using like_contains [of q] by blast
    then show "Database_get_users q d = filter (\<lambda>u. contains_ci q (u_username u)) (users d)"
      unfolding Database_get_users_def by (simp only:)
  qed
  have b: "Database_get_users [] d = users d"
    using like_contains[of "[]"] by (simp add: Database_get_users_def contains_ci_empty del: like.simps)
  have c: "\<forall>t. contains_ci q t
          = (\<exists>pre mid post. t = pre @ mid @ post \<and> map lower_code mid = map lower_code q)"
    using contains_ci_iff by blast
  from a b c show ?thesis
    by (simp add: Database_get_users_def)
qed

theorem search_peer_is_like_witness:
  "Database_get_users ''ALI'' example_db = [alice]
   \<and> Database_get_users ''ol_3'' example_db = [carol]"
proof -
  have free: "CHR ''%'' \<notin> set ''ALI'' \<and> CHR ''_'' \<notin> set ''ALI''"
    by simp
  have "Database_get_users ''ALI'' example_db
          = filter (\<lambda>u. contains_ci ''ALI'' (u_username u)) (users example_db)"
    using search_peer_is_like [of "''ALI''" example_db, THEN conjunct2, THEN conjunct1] free
    by blast
  then have one: "Database_get_users ''ALI'' example_db = [alice]"
    by (simp add: example_db_def alice_def bob_def carol_def lower_code_def)
  have "Database_get_users ''ol_3'' example_db
          = filter (\<lambda>u. like (''%'' @ ''ol_3'' @ ''%'') (u_username u)) (users example_db)"
    using search_peer_is_like [of "''ol_3''" example_db, THEN conjunct1] .
  then have two: "Database_get_users ''ol_3'' example_db = [carol]"
    by (simp add: example_db_def alice_def bob_def carol_def lower_code_def)
  from one two show ?thesis by (rule conjI)
qed

text \<open>
  Claim C10 as stated fails for a query with an underscore, a character that usernames
  may have: it stands for any one character. The query \<open>l_c\<close> returns \<open>alice\<close>, whose
  name does not contain \<open>l_c\<close>, with or without regard to case.
\<close>

theorem search_wildcard_counterexample:
  "Database_get_users ''l_c'' example_db = [alice]
   \<and> \<not> contains_ci ''l_c'' (u_username alice)
   \<and> \<not> (\<exists>pre post. u_username alice = pre @ ''l_c'' @ post)"
proof -
  have a: "Database_get_users ''l_c'' example_db = [alice]"
    by (simp add: Database_get_users_def example_db_def alice_def bob_def carol_def lower_code_def)
  have b: "\<not> contains_ci ''l_c'' (u_username alice)"
    by (simp add: alice_def lower_code_def)
  have "CHR ''_'' \<notin> set (u_username alice)" by (simp add: alice_def)
  then have c: "\<not> (\<exists>pre post. u_username alice = pre @ ''l_c'' @ post)"
    by (metis Un_iff append_Cons list.set_intros(1) list.set_intros(2) set_append)
  from a b c show ?thesis by (intro conjI)
qed

section \<open>Properties of the client\<close>

lemma decrypt_message_pair:
  "fst (decrypt_message decrypt ct key_dir)
     = (ct, case decrypt key_dir ct of Inr p \<Rightarrow> Some p | Inl e \<Rightarrow> None)"
  by (simp add: decrypt_message_def split: sum.splits)

lemma update_all_map:
  "update_all saved (map (\<lambda>c. (c, f c)) cts) k = (if k \<in> set cts then Some (f k) else saved k)"
  unfolding update_all_def
  by (induction cts arbitrary: saved) auto

lemma add_text_None:
  "add_text None label = label\<lparr>l_italic := True, l_text := ''Unable to decrypt message'', l_width := 230\<rparr>"
  by (simp add: add_text_def SIZES_def)

text \<open>
  Claim C9. \<open>decrypt_message\<close> always returns the pair of the ciphertext and the
  plaintext, or the ciphertext and \<open>None\<close> when the decryption raised, whatever it
  raised. When it raised: the live \<open>receive_message\<close> path labels the message with the
  text for \<open>None\<close>, and so does the bulk path of \<open>add_existing_chat\<close> for a message of
  the peer that the cache does not hold; that text is the fixed
  \<open>'Unable to decrypt message'\<close>, in italics.
\<close>

theorem decrypt_failure_is_placeholder:
  "fst (decrypt_message decrypt ct key_dir)
     = (ct, case decrypt key_dir ct of Inr p \<Rightarrow> Some p | Inl e \<Rightarrow> None)
   \<and> (\<forall>e. decrypt key_dir ct = Inl e \<longrightarrow>
        fst (decrypt_message decrypt ct key_dir) = (ct, None)
        \<and> (\<forall>msg saved. m_message msg = ct \<longrightarrow>
              snd (on_receive_message decrypt key_dir msg saved) = add_text None new_label)
        \<and> (\<forall>messages saved peer_id i.
              i < length messages \<and> m_message (messages ! i) = ct
              \<and> m_sender_id (messages ! i) = peer_id \<and> ct \<notin> dom saved \<longrightarrow>
              snd (add_existing_chat decrypt key_dir peer_id messages saved) ! i
                = add_text None new_label))
   \<and> l_text (add_text None label) = ''Unable to decrypt message''
   \<and> l_italic (add_text None label)"
proof -
  let ?f = "\<lambda>c. case decrypt key_dir c of Inr p \<Rightarrow> Some p | Inl e \<Rightarrow> None"
  have pair: "\<And>c. fst (decrypt_message decrypt c key_dir) = (c, ?f c)"
    by (rule decrypt_message_pair)
  have live: "\<And>msg saved. decrypt key_dir (m_message msg) = Inl e \<Longrightarrow>
      snd (on_receive_message decrypt key_dir msg saved) = add_text None new_label" for e
    by (simp add: on_receive_message_def pair update_all_def add_message_def Let_def)
  have bulk: "snd (add_existing_chat decrypt key_dir peer_id messages saved) ! i
                = add_text None new_label"
    if i: "i < length messages" and e: "decrypt key_dir (m_message (messages ! i)) = Inl e"
      and p: "m_sender_id (messages ! i) = peer_id" and n: "m_message (messages ! i) \<notin> dom saved"
    for messages saved peer_id i e
  proof -
    let ?cts = "map m_message (filter (\<lambda>m. m_message m \<notin> dom saved \<and> m_sender_id m = peer_id) messages)"
    have dm: "map (\<lambda>ct. fst (decrypt_message decrypt ct key_dir)) ?cts = map (\<lambda>c. (c, ?f c)) ?cts"
      by (simp add: pair)
    from i p n have "m_message (messages ! i) \<in> set ?cts"
      by auto
    then have "update_all saved (map (\<lambda>c. (c, ?f c)) ?cts) (m_message (messages ! i))
               = Some (?f (m_message (messages ! i)))"
      by (simp only: update_all_map if_True)
    with e have "update_all saved (map (\<lambda>c. (c, ?f c)) ?cts) (m_message (messages ! i)) = Some None"
      by simp
    with i show ?thesis
      unfolding add_existing_chat_def Let_def dm
      by (simp add: add_message_def)
  qed
  show ?thesis
    using pair live bulk by (auto simp: add_text_None)
qed

theorem decrypt_failure_is_placeholder_witness:
  "fst (decrypt_message (\<lambda>k c. if c = ''c1ph3r'' then Inl ValueError else Inr ''hi'') ''c1ph3r'' ''keys'')
     = (''c1ph3r'', None)
   \<and> snd (on_receive_message (\<lambda>k c. if c = ''c1ph3r'' then Inl ValueError else Inr ''hi'')
            ''keys'' hello Map.empty)
       = \<lparr>l_text = ''Unable to decrypt message'', l_italic = True, l_width = 230\<rparr>
   \<and> snd (add_existing_chat (\<lambda>k c. if c = ''c1ph3r'' then Inl ValueError else Inr ''hi'')
            ''keys'' 1 [hello] Map.empty) ! 0
       = \<lparr>l_text = ''Unable to decrypt message'', l_italic = True, l_width = 230\<rparr>"
proof -
  let ?d = "\<lambda>k c. if c = ''c1ph3r'' then Inl ValueError else Inr ''hi'' :: error + string"
  have fails: "?d ''keys'' ''c1ph3r'' = Inl ValueError"
    by simp
  note all = decrypt_failure_is_placeholder [of ?d "''c1ph3r''" "''keys''" new_label]
  note failed = all [THEN conjunct2, THEN conjunct1, rule_format, OF fails]
  have shown: "add_text None new_label
               = \<lparr>l_text = ''Unable to decrypt message'', l_italic = True, l_width = 230\<rparr>"
    by (simp add: add_text_def SIZES_def new_label_def)
  have pair: "fst (decrypt_message ?d ''c1ph3r'' ''keys'') = (''c1ph3r'', None)"
    using failed by simp
  have live: "snd (on_receive_message ?d ''keys'' hello Map.empty) = add_text None new_label"
    using failed [THEN conjunct2, THEN conjunct1, rule_format, of hello Map.empty]
    by (simp add: hello_def)
  have bulk: "snd (add_existing_chat ?d ''keys'' 1 [hello] Map.empty) ! 0 = add_text None new_label"
    using failed [THEN conjunct2, THEN conjunct2, THEN spec, of "[hello]", THEN spec, of Map.empty,
        THEN spec, of 1, THEN spec, of 0]
    by (simp add: hello_def)
  from pair live bulk show ?thesis
    by (simp only: shown)
qed

end
